theory Spec2Isabelle
  imports Main "HOL-Library.Sublist"
begin

section \<open>Domain model (package domain)\<close>

text \<open>
  \<^verbatim>\<open>AnalysisStatus\<close> is a Go string type with four declared constants. A value of the
  type can hold any string: the durable store's status column has the enum type
  \<^verbatim>\<open>analysis_status\<close> with exactly these four values, but the cache keeps records as
  JSON and decodes the status as it is written there.
\<close>

type_synonym AnalysisStatus = string

definition StatusRequested :: AnalysisStatus where "StatusRequested = ''requested''"
definition StatusInProgress :: AnalysisStatus where "StatusInProgress = ''in_progress''"
definition StatusCompleted :: AnalysisStatus where "StatusCompleted = ''completed''"
definition StatusFailed :: AnalysisStatus where "StatusFailed = ''failed''"

datatype HTMLVersion = HTML5 | HTML401 | XHTML10 | XHTML11 | Unknown

datatype LinkType = LinkTypeInternal | LinkTypeExternal

record Link =
  URL :: string
  Type :: LinkType

record InaccessibleLink =
  URL :: string
  StatusCode :: int
  Error :: string

record HeadingCounts =
  H1 :: int
  H2 :: int
  H3 :: int
  H4 :: int
  H5 :: int
  H6 :: int

record LinkAnalysis =
  InternalCount :: int
  ExternalCount :: int
  TotalCount :: int
  InaccessibleLinks :: "InaccessibleLink list"

record LoginForm =
  Method :: string
  Action :: string
  Fields :: "string list"

record FormAnalysis =
  TotalCount :: nat
  LoginFormsDetected :: nat
  LoginFormDetails :: "LoginForm list"

record AnalysisData =
  HTMLVersion :: HTMLVersion
  Title :: string
  HeadingCounts :: HeadingCounts
  Links :: LinkAnalysis
  Forms :: FormAnalysis

record WebPageContent =
  URL :: string
  StatusCode :: int
  HTML :: string
  ContentType :: string
  Headers :: "(string \<times> string) list"

record AnalysisError =
  Code :: string
  Message :: string
  StatusCode :: int
  Details :: string

record AnalysisOptions =
  IncludeHeadings :: bool
  CheckLinks :: bool
  DetectForms :: bool
  Timeout :: int

text \<open>Optional (pointer) fields are options; the id is the UUID's string form, times are
  clock readings.\<close>

record Analysis =
  ID :: string
  URL :: string
  Status :: AnalysisStatus
  CreatedAt :: nat
  CompletedAt :: "nat option"
  Duration :: "int option"
  Results :: "AnalysisData option"
  Error :: "AnalysisError option"

record AnalysisEvent =
  Type :: string
  Data :: Analysis
  EventID :: string

definition EventTypeStarted :: string where "EventTypeStarted = ''analysis_started''"
definition EventTypeProgress :: string where "EventTypeProgress = ''analysis_progress''"
definition EventTypeCompleted :: string where "EventTypeCompleted = ''analysis_completed''"
definition EventTypeFailed :: string where "EventTypeFailed = ''analysis_failed''"

subsection \<open>Errors (package domain, errors.go)\<close>

text \<open>
  Go error values. \<open>ErrorString\<close> is what \<^verbatim>\<open>errors.New\<close> and a
  \<^verbatim>\<open>fmt.Errorf\<close> without \<^verbatim>\<open>%w\<close> build, \<open>Wrapped\<close> is
  \<^verbatim>\<open>fmt.Errorf("<prefix>: %w", err)\<close>, \<open>ErrOpenState\<close> and
  \<open>ErrTooManyRequests\<close> are the circuit breaker's sentinels, and \<open>DomainError\<close> is
  the struct of errors.go with its cause and its details map (an association list, latest
  first).
\<close>

datatype detail = DetailString string | DetailInt int

datatype error =
    ErrorString string
  | Wrapped string error
  | ErrOpenState
  | ErrTooManyRequests
  | DomainError string string int "error option" "(string \<times> detail) list"

section \<open>Application service (internal/service/application_service.go)\<close>

text \<open>
  The service talks to its collaborators through the ports \<^verbatim>\<open>AnalysisRepository\<close>
  (Find, Save) and \<^verbatim>\<open>CacheRepository\<close> (Find, Set), and writes to a logger. All are
  stateful, so each operation takes the state of the outside world and returns the new one.
  Every implementation of the ports in the repository returns either a record and a nil
  error, or nil and an error, which is the sum type.
\<close>

record 'w ports =
  analysisRepo_Find :: "string \<Rightarrow> 'w \<Rightarrow> (error + Analysis) \<times> 'w"
  analysisRepo_Save :: "string \<Rightarrow> AnalysisOptions \<Rightarrow> 'w \<Rightarrow> (error + Analysis) \<times> 'w"
  cacheRepo_Find :: "string \<Rightarrow> 'w \<Rightarrow> (error + Analysis) \<times> 'w"
  cacheRepo_Set :: "Analysis \<Rightarrow> 'w \<Rightarrow> error option \<times> 'w"
  logger_Error :: "string \<Rightarrow> error \<Rightarrow> 'w \<Rightarrow> 'w"

definition StartAnalysis ::
  "'w ports \<Rightarrow> string \<Rightarrow> AnalysisOptions \<Rightarrow> 'w \<Rightarrow> (error + Analysis) \<times> 'w" where
  "StartAnalysis s url options w0 =
     (case analysisRepo_Save s url options w0 of
        (Inl err, w1) \<Rightarrow> (Inl err, w1)
      | (Inr analysis, w1) \<Rightarrow>
          (case cacheRepo_Set s analysis w1 of
             (Some cacheErr, w2) \<Rightarrow>
               (Inr analysis, logger_Error s ''failed to save analysis to the cache'' cacheErr w2)
           | (None, w2) \<Rightarrow> (Inr analysis, w2)))"

definition FetchAnalysis ::
  "'w ports \<Rightarrow> string \<Rightarrow> 'w \<Rightarrow> (error + Analysis) \<times> 'w" where
  "FetchAnalysis s analysisID w0 =
     (case cacheRepo_Find s analysisID w0 of
        (Inr analysis, w1) \<Rightarrow> (Inr analysis, w1)
      | (Inl _, w1) \<Rightarrow>
          (case analysisRepo_Find s analysisID w1 of
             (Inl err, w2) \<Rightarrow> (Inl (Wrapped ''failed to find analysis'' err), w2)
           | (Inr analysis, w2) \<Rightarrow>
               (case cacheRepo_Set s analysis w2 of
                  (Some cacheErr, w3) \<Rightarrow>
                    (Inr analysis,
                     logger_Error s ''failed to save analysis to the cache'' cacheErr w3)
                | (None, w3) \<Rightarrow> (Inr analysis, w3))))"

text \<open>
  \<^verbatim>\<open>FetchAnalysisEvents\<close> makes an unbuffered channel, starts one goroutine that is the
  channel's only sender, and returns the channel with a nil error at once. The goroutine
  looks the analysis up, sends at most one event and closes the channel when it ends
  (\<^verbatim>\<open>defer close(events)\<close>). The \<^verbatim>\<open>switch\<close> on the status has four cases and no
  default, so a status that is none of the four constants sends nothing.

  The channel is modelled by the goroutine's sends, in order. A send on the unbuffered
  channel completes only when the receiver takes the event, and the goroutine closes the
  channel after its last send has completed. \<open>recv ch k\<close> is what the receiver gets from
  \<^verbatim>\<open>event, ok := <-ch\<close> after it has taken \<open>k\<close> events: the next event, or \<open>None\<close>
  when the channel is closed (\<^verbatim>\<open>ok\<close> false).
\<close>

type_synonym event_channel = "AnalysisEvent list"

definition recv :: "event_channel \<Rightarrow> nat \<Rightarrow> AnalysisEvent option" where
  "recv ch k = (if k < length ch then Some (ch ! k) else None)"

definition FetchAnalysisEvents ::
  "'w ports \<Rightarrow> string \<Rightarrow> 'w \<Rightarrow> (event_channel \<times> error option) \<times> 'w" where
  "FetchAnalysisEvents s analysisID w0 =
     (case FetchAnalysis s analysisID w0 of
        (Inl err, w1) \<Rightarrow> (([], None), w1)
      | (Inr analysis, w1) \<Rightarrow>
          ((if Status analysis = StatusRequested
            then [\<lparr>Type = EventTypeStarted, Data = analysis, EventID = ID analysis\<rparr>]
            else if Status analysis = StatusInProgress
            then [\<lparr>Type = EventTypeProgress, Data = analysis, EventID = ID analysis\<rparr>]
            else if Status analysis = StatusCompleted
            then [\<lparr>Type = EventTypeCompleted, Data = analysis, EventID = ID analysis\<rparr>]
            else if Status analysis = StatusFailed
            then [\<lparr>Type = EventTypeFailed, Data = analysis, EventID = ID analysis\<rparr>]
            else [], None), w1))"

subsection \<open>Observing the calls\<close>

text \<open>
  To count the calls a service operation makes, the collaborators are wrapped: \<open>traced s\<close>
  does what \<open>s\<close> does and, at every operation, appends the call to a log kept beside the
  world. The log is written by the ports, not by the service, so it holds exactly the calls
  the service made, in order.
\<close>

datatype call =
    DurableSave string AnalysisOptions
  | DurableFind string
  | CacheFind string
  | CacheSet Analysis
  | LogError string error

definition traced :: "'w ports \<Rightarrow> ('w \<times> call list) ports" where
  "traced s =
     \<lparr>analysisRepo_Find = (\<lambda>i (w, t).
        case analysisRepo_Find s i w of (r, w') \<Rightarrow> (r, (w', t @ [DurableFind i]))),
      analysisRepo_Save = (\<lambda>url options (w, t).
        case analysisRepo_Save s url options w of
          (r, w') \<Rightarrow> (r, (w', t @ [DurableSave url options]))),
      cacheRepo_Find = (\<lambda>i (w, t).
        case cacheRepo_Find s i w of (r, w') \<Rightarrow> (r, (w', t @ [CacheFind i]))),
      cacheRepo_Set = (\<lambda>a (w, t).
        case cacheRepo_Set s a w of (r, w') \<Rightarrow> (r, (w', t @ [CacheSet a]))),
      logger_Error = (\<lambda>msg err (w, t). (logger_Error s msg err w, t @ [LogError msg err]))\<rparr>"

fun is_DurableFind :: "call \<Rightarrow> bool" where
  "is_DurableFind (DurableFind _) = True"
| "is_DurableFind _ = False"

fun is_DurableSave :: "call \<Rightarrow> bool" where
  "is_DurableSave (DurableSave _ _) = True"
| "is_DurableSave _ = False"

fun is_CacheSet :: "call \<Rightarrow> bool" where
  "is_CacheSet (CacheSet _) = True"
| "is_CacheSet _ = False"

definition calls :: "(call \<Rightarrow> bool) \<Rightarrow> call list \<Rightarrow> nat" where
  "calls P trace = length (filter P trace)"

subsection \<open>The durable store's Save (PostgresRepository.Save)\<close>

text \<open>
  The database driver is outside the repository: its connection, the UUID generator, the
  clock and the INSERT statement (which returns the stored id and creation time, or fails)
  are operations on the world.
\<close>

record 'w storage =
  GetDB :: "'w \<Rightarrow> error option"
  uuid_New :: "'w \<Rightarrow> string \<times> 'w"
  time_Now :: "'w \<Rightarrow> nat \<times> 'w"
  insert_returning :: "Analysis \<Rightarrow> 'w \<Rightarrow> (error + string \<times> nat) \<times> 'w"

definition PostgresRepository_Save ::
  "'w storage \<Rightarrow> string \<Rightarrow> AnalysisOptions \<Rightarrow> 'w \<Rightarrow> (error + Analysis) \<times> 'w" where
  "PostgresRepository_Save r url options w0 =
     (case GetDB r w0 of
        Some err \<Rightarrow> (Inl (Wrapped ''failed to get database connection'' err), w0)
      | None \<Rightarrow>
          (case uuid_New r w0 of (newID, w1) \<Rightarrow>
          (case time_Now r w1 of (now, w2) \<Rightarrow>
             (let analysis = \<lparr>ID = newID, URL = url, Status = StatusRequested,
                              CreatedAt = now, CompletedAt = None, Duration = None,
                              Results = None, Error = None\<rparr>
              in case insert_returning r analysis w2 of
                   (Inl err, w3) \<Rightarrow> (Inl (Wrapped ''failed to save analysis'' err), w3)
                 | (Inr (storedID, storedAt), w3) \<Rightarrow>
                     (Inr (analysis\<lparr>ID := storedID, CreatedAt := storedAt\<rparr>), w3)))))"

subsection \<open>An in-memory world for concrete runs\<close>

text \<open>
  A small world in the style of the service tests' mocks: the durable table, the cache's
  entries, whether the cache is reachable, a supply of fresh ids, a clock and the lines
  logged.
\<close>

record world =
  db_rows :: "Analysis list"
  cache_entries :: "Analysis list"
  cache_up :: bool
  fresh_ids :: "string list"
  clock :: nat
  logged :: "(string \<times> error) list"

definition ErrCacheUnavailable :: error where
  "ErrCacheUnavailable = ErrorString ''cache service unavailable''"

definition mem_storage :: "world storage" where
  "mem_storage =
     \<lparr>GetDB = (\<lambda>w. None),
      uuid_New = (\<lambda>w. case fresh_ids w of
                          [] \<Rightarrow> ([], w)
                        | i # is \<Rightarrow> (i, w\<lparr>fresh_ids := is\<rparr>)),
      time_Now = (\<lambda>w. (clock w, w\<lparr>clock := Suc (clock w)\<rparr>)),
      insert_returning = (\<lambda>a w.
        if ID a \<in> set (map ID (db_rows w))
        then (Inl (ErrorString ''duplicate key value violates unique constraint''), w)
        else (Inr (ID a, CreatedAt a), w\<lparr>db_rows := db_rows w @ [a]\<rparr>))\<rparr>"

definition mem_ports :: "world ports" where
  "mem_ports =
     \<lparr>analysisRepo_Find = (\<lambda>i w.
        case find (\<lambda>a. ID a = i) (db_rows w) of
          None \<Rightarrow> (Inl (ErrorString (''analysis with ID '' @ i @ '' not found'')), w)
        | Some a \<Rightarrow> (Inr a, w)),
      analysisRepo_Save = PostgresRepository_Save mem_storage,
      cacheRepo_Find = (\<lambda>i w.
        if \<not> cache_up w then (Inl ErrCacheUnavailable, w)
        else case find (\<lambda>a. ID a = i) (cache_entries w) of
               None \<Rightarrow> (Inl (ErrorString ''key not found''), w)
             | Some a \<Rightarrow> (Inr a, w)),
      cacheRepo_Set = (\<lambda>a w.
        if \<not> cache_up w then (Some ErrCacheUnavailable, w)
        else (None, w\<lparr>cache_entries := a # filter (\<lambda>b. ID b \<noteq> ID a) (cache_entries w)\<rparr>)),
      logger_Error = (\<lambda>msg err w. w\<lparr>logged := logged w @ [(msg, err)]\<rparr>)\<rparr>"

definition defaultOptions :: AnalysisOptions where
  "defaultOptions =
     \<lparr>IncludeHeadings = True, CheckLinks = True, DetectForms = True, Timeout = 30\<rparr>"

definition stored :: "string \<Rightarrow> AnalysisStatus \<Rightarrow> Analysis" where
  "stored i st =
     \<lparr>ID = i, URL = ''https://example.com'', Status = st, CreatedAt = 0,
      CompletedAt = None, Duration = None, Results = None, Error = None\<rparr>"

text \<open>
  \<open>world0\<close>: one completed analysis in the table, the cache unreachable. \<open>world1\<close>: the
  same table, the cache reachable and holding two records that are not in the table, one of
  them with a status that is none of the four constants.
\<close>

definition world0 :: world where
  "world0 = \<lparr>db_rows = [stored ''a1'' ''completed''], cache_entries = [],
             cache_up = False, fresh_ids = [''n1'', ''n2''], clock = 7, logged = []\<rparr>"

definition world1 :: world where
  "world1 = \<lparr>db_rows = [stored ''a1'' ''completed''],
             cache_entries = [stored ''c1'' ''failed'', stored ''c2'' ''archived''],
             cache_up = True, fresh_ids = [''n1'', ''n2''], clock = 7, logged = []\<rparr>"

section \<open>Outbound HTTP: circuit breaker, transport, errors' messages\<close>

text \<open>
  \<^verbatim>\<open>err.Error()\<close>: the message of an error value. A wrapped error prints its prefix,
  a colon and the cause; a DomainError prints its message, followed by the cause's message
  when it has a cause (errors.go, \<^verbatim>\<open>DomainError.Error\<close>).
\<close>

fun Error_string :: "error \<Rightarrow> string" where
  "Error_string (ErrorString m) = m"
| "Error_string (Wrapped p e) = p @ '': '' @ Error_string e"
| "Error_string ErrOpenState = ''circuit breaker is open''"
| "Error_string ErrTooManyRequests = ''too many requests''"
| "Error_string (DomainError c m s None d) = m"
| "Error_string (DomainError c m s (Some e) d) = m @ '': '' @ Error_string e"

text \<open>
  \<^verbatim>\<open>errors.Is(err, gobreaker.ErrOpenState)\<close>: the sentinel is looked for along the chain
  of causes (\<^verbatim>\<open>Unwrap\<close>).
\<close>

fun is_ErrOpenState :: "error \<Rightarrow> bool" where
  "is_ErrOpenState ErrOpenState = True"
| "is_ErrOpenState (Wrapped p e) = is_ErrOpenState e"
| "is_ErrOpenState (DomainError c m s (Some e) d) = is_ErrOpenState e"
| "is_ErrOpenState _ = False"

text \<open>\<^verbatim>\<open>strconv.Itoa\<close> and the \<^verbatim>\<open>%d\<close> verb: decimal digits, a minus sign when negative.\<close>

fun digit_char :: "nat \<Rightarrow> char" where
  "digit_char n = char_of (48 + n mod 10)"

function decimal :: "nat \<Rightarrow> string" where
  "decimal n = (if n < 10 then [digit_char n] else decimal (n div 10) @ [digit_char n])"
  by pat_completeness auto
termination
  by (relation "measure id") auto

definition Itoa :: "int \<Rightarrow> string" where
  "Itoa i = (if i < 0 then CHR ''-'' # decimal (nat (- i)) else decimal (nat i))"

subsection \<open>Constructors of errors.go\<close>

definition NewDomainError :: "string \<Rightarrow> string \<Rightarrow> int \<Rightarrow> error option \<Rightarrow> error" where
  "NewDomainError code message statusCode cause = DomainError code message statusCode cause []"

fun WithDetails :: "error \<Rightarrow> string \<Rightarrow> detail \<Rightarrow> error" where
  "WithDetails (DomainError c m s cause d) key v =
     DomainError c m s cause ((key, v) # filter (\<lambda>kv. fst kv \<noteq> key) d)"
| "WithDetails e key v = e"

definition NewURLNotReachableError :: "string \<Rightarrow> int \<Rightarrow> error option \<Rightarrow> error" where
  "NewURLNotReachableError url statusCode cause =
     WithDetails
       (WithDetails
          (NewDomainError ''URL_NOT_REACHABLE'' (''URL '' @ url @ '' is not reachable'')
             statusCode cause)
          ''url'' (DetailString url))
       ''status_code'' (DetailInt statusCode)"

definition NewInvalidURLError :: "string \<Rightarrow> error option \<Rightarrow> error" where
  "NewInvalidURLError url cause =
     WithDetails
       (NewDomainError ''INVALID_URL'' (''Invalid URL: '' @ url) 400 cause)
       ''url'' (DetailString url)"

text \<open>The fields of a DomainError; an error of another kind has none.\<close>

fun error_Code :: "error \<Rightarrow> string option" where
  "error_Code (DomainError c m s cause d) = Some c"
| "error_Code _ = None"

fun error_StatusCode :: "error \<Rightarrow> int option" where
  "error_StatusCode (DomainError c m s cause d) = Some s"
| "error_StatusCode _ = None"

fun error_Details :: "error \<Rightarrow> (string \<times> detail) list" where
  "error_Details (DomainError c m s cause d) = d"
| "error_Details _ = []"

subsection \<open>The circuit breaker and the HTTP client (libraries)\<close>

text \<open>
  The circuit breaker is a library (gobreaker). Its \<^verbatim>\<open>Execute(req)\<close> first asks the
  breaker's state whether the request may run: when it may not, Execute returns the
  breaker's error (\<open>ErrOpenState\<close> while the breaker is open) and \<^verbatim>\<open>req\<close> is not
  run; otherwise it runs \<^verbatim>\<open>req\<close>, reports to the breaker whether it returned a nil
  error, and returns what \<^verbatim>\<open>req\<close> returned. The breaker's counters live in the world:
  its two state operations are parameters.
\<close>

record 'w breaker =
  beforeRequest :: "'w \<Rightarrow> error option \<times> 'w"
  afterRequest :: "bool \<Rightarrow> 'w \<Rightarrow> 'w"

definition Execute ::
  "'w breaker \<Rightarrow> ('w \<Rightarrow> (error + 'a) \<times> 'w) \<Rightarrow> 'w \<Rightarrow> (error + 'a) \<times> 'w" where
  "Execute cb req w0 =
     (case beforeRequest cb w0 of
        (Some err, w1) \<Rightarrow> (Inl err, w1)
      | (None, w1) \<Rightarrow>
          (case req w1 of
             (Inl err, w2) \<Rightarrow> (Inl err, afterRequest cb False w2)
           | (Inr result, w2) \<Rightarrow> (Inr result, afterRequest cb True w2)))"

text \<open>
  What the HTTP client (resty) gives back for a request: a response, or a transport error
  with its message. A response has the final request URL, the status code, the status
  line's text, the body and the header (each key with its values).
\<close>

record Response =
  Request_URL :: string
  resp_StatusCode :: int
  resp_Status :: string
  Body :: string
  Header :: "(string \<times> string list) list"

record 'w client =
  Head :: "string \<Rightarrow> 'w \<Rightarrow> (string + Response) \<times> 'w"
  Get :: "string \<Rightarrow> 'w \<Rightarrow> (string + Response) \<times> 'w"

definition Header_Get :: "(string \<times> string list) list \<Rightarrow> string \<Rightarrow> string" where
  "Header_Get h key = (case map_of h key of Some (v # _) \<Rightarrow> v | _ \<Rightarrow> [])"

section \<open>Link checker (internal/adapters, LinkChecker)\<close>

text \<open>The struct \<^verbatim>\<open>linkCheckResult\<close>, with fields StatusCode and Error.\<close>

record linkCheckResult =
  check_StatusCode :: int
  check_Error :: string

definition performLinkCheck ::
  "'w client \<Rightarrow> string \<Rightarrow> 'w \<Rightarrow> (error + linkCheckResult) \<times> 'w" where
  "performLinkCheck c linkURL w0 =
     (let finish = (\<lambda>resp.
            \<lparr>check_StatusCode = resp_StatusCode resp,
             check_Error = (if resp_StatusCode resp \<ge> 400 then resp_Status resp else [])\<rparr>)
      in case Head c linkURL w0 of
           (Inr resp, w1) \<Rightarrow> (Inr (finish resp), w1)
         | (Inl _, w1) \<Rightarrow>
             (case Get c linkURL w1 of
                (Inl err, w2) \<Rightarrow> (Inl (ErrorString err), w2)
              | (Inr resp, w2) \<Rightarrow> (Inr (finish resp), w2)))"

definition checkSingleLink ::
  "'w breaker \<Rightarrow> 'w client \<Rightarrow> Link \<Rightarrow> 'w \<Rightarrow> InaccessibleLink option \<times> 'w" where
  "checkSingleLink cb c link w0 =
     (case Execute cb (performLinkCheck c (Link.URL link)) w0 of
        (Inl err, w1) \<Rightarrow>
          (if err = ErrOpenState
           then (Some \<lparr>InaccessibleLink.URL = Link.URL link,
                       InaccessibleLink.StatusCode = 503,
                       InaccessibleLink.Error =
                         ''Service temporarily unavailable (circuit breaker open)''\<rparr>, w1)
           else (Some \<lparr>InaccessibleLink.URL = Link.URL link,
                       InaccessibleLink.StatusCode = 0,
                       InaccessibleLink.Error = Error_string err\<rparr>, w1))
      | (Inr checkResult, w1) \<Rightarrow>
          (if check_StatusCode checkResult \<ge> 400
           then (Some \<lparr>InaccessibleLink.URL = Link.URL link,
                       InaccessibleLink.StatusCode = check_StatusCode checkResult,
                       InaccessibleLink.Error = check_Error checkResult\<rparr>, w1)
           else (None, w1)))"

section \<open>Strings and URLs (Go's strings and net/url packages)\<close>

text \<open>
  Go strings are byte sequences, as \<^typ>\<open>string\<close> is. The functions of the
  \<^verbatim>\<open>strings\<close> package used by the adapters work on bytes here.
\<close>

definition HasPrefix :: "string \<Rightarrow> string \<Rightarrow> bool" where
  "HasPrefix s pre = (take (length pre) s = pre)"

definition HasSuffix :: "string \<Rightarrow> string \<Rightarrow> bool" where
  "HasSuffix s suf = (length suf \<le> length s \<and> drop (length s - length suf) s = suf)"

fun Contains :: "string \<Rightarrow> string \<Rightarrow> bool" where
  "Contains [] sub = (sub = [])"
| "Contains (c # cs) sub = (HasPrefix (c # cs) sub \<or> Contains cs sub)"

text \<open>\<^verbatim>\<open>strings.Cut(s, sep)\<close> for a one-byte separator: the text before the first
  separator, the text after it, and whether there is one.\<close>

fun Cut :: "string \<Rightarrow> char \<Rightarrow> string \<times> string \<times> bool" where
  "Cut [] sep = ([], [], False)"
| "Cut (c # cs) sep =
     (if c = sep then ([], cs, True)
      else case Cut cs sep of (before, after, found) \<Rightarrow> (c # before, after, found))"

text \<open>The last index of a byte, as the text before it and the text from it on.\<close>

definition CutLast :: "string \<Rightarrow> char \<Rightarrow> (string \<times> string) option" where
  "CutLast s sep =
     (case Cut (rev s) sep of
        (after_rev, before_rev, True) \<Rightarrow> Some (rev before_rev, sep # rev after_rev)
      | (_, _, False) \<Rightarrow> None)"

text \<open>A byte's value, and whether it lies between two values.\<close>

definition byte :: "char \<Rightarrow> nat" where
  "byte c = of_char c"

definition between :: "char \<Rightarrow> char \<Rightarrow> char \<Rightarrow> bool" where
  "between lo c hi = (byte lo \<le> byte c \<and> byte c \<le> byte hi)"

definition is_upper :: "char \<Rightarrow> bool" where
  "is_upper c = between CHR ''A'' c CHR ''Z''"

definition is_lower :: "char \<Rightarrow> bool" where
  "is_lower c = between CHR ''a'' c CHR ''z''"

definition is_digit :: "char \<Rightarrow> bool" where
  "is_digit c = between CHR ''0'' c CHR ''9''"

definition lower_char :: "char \<Rightarrow> char" where
  "lower_char c = (if is_upper c then char_of (byte c + 32) else c)"

text \<open>
  \<^verbatim>\<open>strings.ToLower\<close>. ASCII letters are lowered. Of the runes outside ASCII, two have
  an ASCII lower case: U+212A (Kelvin sign, bytes E2 84 AA) gives k and U+0130 (bytes C4 B0)
  gives i. The other runes outside ASCII are left as they are: Go maps them to runes
  outside ASCII again, which no comparison of the adapters (all against ASCII text) can
  tell apart from the original.
\<close>

fun ToLower :: "string \<Rightarrow> string" where
  "ToLower [] = []"
| "ToLower (c # cs) =
     (if c = char_of (0xE2::nat) \<and> take 2 cs = [char_of (0x84::nat), char_of (0xAA::nat)]
      then CHR ''k'' # ToLower (drop 2 cs)
      else if c = char_of (0xC4::nat) \<and> take 1 cs = [char_of (0xB0::nat)]
      then CHR ''i'' # ToLower (drop 1 cs)
      else lower_char c # ToLower cs)"

subsection \<open>\<^verbatim>\<open>url.Parse\<close>\<close>

text \<open>
  The standard library's URL, with the fields Parse sets apart from the two hints of the
  original encoding (RawPath, RawFragment). \<open>User\<close> is the user name and the optional
  password. \<open>Host\<close> is what Go calls Host: host or host:port.
\<close>

record URL =
  Scheme :: string
  Opaque :: string
  User :: "(string \<times> string option) option"
  Host :: string
  Path :: string
  OmitHost :: bool
  ForceQuery :: bool
  RawQuery :: string
  Fragment :: string

definition emptyURL :: URL where
  "emptyURL = \<lparr>Scheme = [], Opaque = [], User = None, Host = [], Path = [],
               OmitHost = False, ForceQuery = False, RawQuery = [], Fragment = []\<rparr>"

datatype encoding = encodePath | encodeUserPassword | encodeHost | encodeZone | encodeFragment

definition ishex :: "char \<Rightarrow> bool" where
  "ishex c = (is_digit c \<or> between CHR ''a'' c CHR ''f'' \<or> between CHR ''A'' c CHR ''F'')"

definition unhex :: "char \<Rightarrow> nat" where
  "unhex c =
     (if is_digit c then byte c - 48
      else if between CHR ''a'' c CHR ''f'' then byte c - 97 + 10
      else if between CHR ''A'' c CHR ''F'' then byte c - 65 + 10
      else 0)"

text \<open>\<^verbatim>\<open>shouldEscape(c, encodeHost)\<close>: the bytes a host may not hold unescaped.\<close>

definition shouldEscape_host :: "char \<Rightarrow> bool" where
  "shouldEscape_host c =
     (\<not> (is_lower c \<or> is_upper c \<or> is_digit c \<or> c \<in> set ''!$&'' \<or> c = CHR 0x27 \<or>
         c \<in> set ''()*+,;=:[]<>'' \<or> c = CHR 0x22 \<or> c \<in> set ''-_.~''))"

text \<open>\<^verbatim>\<open>strconv.Quote\<close>, for the messages of errors: ASCII is quoted as Go does; bytes
  outside ASCII are copied (Go copies the printable runes and escapes the others).\<close>

definition hex_digit :: "nat \<Rightarrow> char" where
  "hex_digit n = (if n < 10 then char_of (48 + n) else char_of (87 + n))"

definition quote_char :: "char \<Rightarrow> string" where
  "quote_char c =
     (if c = CHR 0x22 then [CHR 0x5C, CHR 0x22]
      else if c = CHR 0x5C then [CHR 0x5C, CHR 0x5C]
      else if c = CHR 0x07 then [CHR 0x5C, CHR ''a'']
      else if c = CHR 0x08 then [CHR 0x5C, CHR ''b'']
      else if c = CHR 0x0C then [CHR 0x5C, CHR ''f'']
      else if c = CHR 0x0A then [CHR 0x5C, CHR ''n'']
      else if c = CHR 0x0D then [CHR 0x5C, CHR ''r'']
      else if c = CHR 0x09 then [CHR 0x5C, CHR ''t'']
      else if c = CHR 0x0B then [CHR 0x5C, CHR ''v'']
      else if byte c < 0x20 \<or> c = CHR 0x7F
      then [CHR 0x5C, CHR ''x'', hex_digit (byte c div 16), hex_digit (byte c mod 16)]
      else [c])"

definition Quote :: "string \<Rightarrow> string" where
  "Quote s = CHR 0x22 # concat (map quote_char s) @ [CHR 0x22]"

definition EscapeError :: "string \<Rightarrow> error" where
  "EscapeError s = ErrorString (''invalid URL escape '' @ Quote s)"

definition InvalidHostError :: "string \<Rightarrow> error" where
  "InvalidHostError s = ErrorString (''invalid character '' @ Quote s @ '' in host name'')"

text \<open>\<^verbatim>\<open>unescape\<close>, first pass: the string's escapes are well formed for the mode.\<close>

fun unescape_check :: "encoding \<Rightarrow> string \<Rightarrow> error option" where
  "unescape_check mode [] = None"
| "unescape_check mode (c # cs) =
     (if c = CHR ''%'' then
        (case cs of
           h1 # h2 # rest \<Rightarrow>
             if \<not> ishex h1 \<or> \<not> ishex h2 then Some (EscapeError [c, h1, h2])
             else if mode = encodeHost \<and> unhex h1 < 8 \<and> [c, h1, h2] \<noteq> ''%25''
             then Some (EscapeError [c, h1, h2])
             else if mode = encodeZone \<and> [c, h1, h2] \<noteq> ''%25'' \<and>
                     char_of (unhex h1 * 16 + unhex h2) \<noteq> CHR '' '' \<and>
                     shouldEscape_host (char_of (unhex h1 * 16 + unhex h2))
             then Some (EscapeError [c, h1, h2])
             else unescape_check mode rest
         | _ \<Rightarrow> Some (EscapeError (c # cs)))
      else if (mode = encodeHost \<or> mode = encodeZone) \<and> byte c < 0x80 \<and> shouldEscape_host c
      then Some (InvalidHostError [c])
      else unescape_check mode cs)"

text \<open>Second pass: every escape is replaced by its byte. (A plus sign stands for a space
  in query components only, which Parse never unescapes.)\<close>

fun unescape_decode :: "string \<Rightarrow> string" where
  "unescape_decode (c # h1 # h2 # rest) =
     (if c = CHR ''%'' then char_of (unhex h1 * 16 + unhex h2) # unescape_decode rest
      else c # unescape_decode (h1 # h2 # rest))"
| "unescape_decode cs = cs"

definition unescape :: "string \<Rightarrow> encoding \<Rightarrow> error + string" where
  "unescape s mode =
     (case unescape_check mode s of
        Some err \<Rightarrow> Inl err
      | None \<Rightarrow> Inr (unescape_decode s))"

text \<open>\<^verbatim>\<open>getScheme\<close>: the scheme before the first colon, if the text before it is
  letters, digits, plus, minus and dot and does not start with one of the latter.\<close>

fun getScheme_from :: "string \<Rightarrow> string \<Rightarrow> string \<Rightarrow> error + string \<times> string" where
  "getScheme_from rawURL seen [] = Inr ([], rawURL)"
| "getScheme_from rawURL seen (c # cs) =
     (if is_lower c \<or> is_upper c then getScheme_from rawURL (seen @ [c]) cs
      else if is_digit c \<or> c = CHR ''+'' \<or> c = CHR ''-'' \<or> c = CHR ''.'' then
        (if seen = [] then Inr ([], rawURL) else getScheme_from rawURL (seen @ [c]) cs)
      else if c = CHR '':'' then
        (if seen = [] then Inl (ErrorString ''missing protocol scheme'') else Inr (seen, cs))
      else Inr ([], rawURL))"

definition getScheme :: "string \<Rightarrow> error + string \<times> string" where
  "getScheme rawURL = getScheme_from rawURL [] rawURL"

definition validOptionalPort :: "string \<Rightarrow> bool" where
  "validOptionalPort port =
     (case port of [] \<Rightarrow> True | c # ds \<Rightarrow> c = CHR '':'' \<and> list_all is_digit ds)"

definition validUserinfo :: "string \<Rightarrow> bool" where
  "validUserinfo s =
     list_all (\<lambda>r. is_upper r \<or> is_lower r \<or> is_digit r \<or> r \<in> set ''-._:~!$&'' \<or>
                   r = CHR 0x27 \<or> r \<in> set ''()*+,;=%@'') s"

text \<open>The index of the first occurrence of a substring, as the text before it and the text
  from it on.\<close>

fun split_at_sub :: "string \<Rightarrow> string \<Rightarrow> (string \<times> string) option" where
  "split_at_sub [] sub = (if sub = [] then Some ([], []) else None)"
| "split_at_sub (c # cs) sub =
     (if HasPrefix (c # cs) sub then Some ([], c # cs)
      else case split_at_sub cs sub of
             None \<Rightarrow> None
           | Some (before, from) \<Rightarrow> Some (c # before, from))"

definition parseHost :: "string \<Rightarrow> error + string" where
  "parseHost host =
     (let plain = unescape host encodeHost;
          badPort = (\<lambda>colonPort.
            Inl (ErrorString (''invalid port '' @ Quote colonPort @ '' after host'')))
      in if HasPrefix host ''['' then
           (case CutLast host CHR '']'' of
              None \<Rightarrow> Inl (ErrorString ''missing ']' in host'')
            | Some (literal, bracketPort) \<Rightarrow>
                if \<not> validOptionalPort (drop 1 bracketPort) then badPort (drop 1 bracketPort)
                else
                  (case split_at_sub literal ''%25'' of
                     None \<Rightarrow> plain
                   | Some (beforeZone, zone) \<Rightarrow>
                       (case unescape beforeZone encodeHost of
                          Inl err \<Rightarrow> Inl err
                        | Inr host1 \<Rightarrow>
                            (case unescape zone encodeZone of
                               Inl err \<Rightarrow> Inl err
                             | Inr host2 \<Rightarrow>
                                 (case unescape bracketPort encodeHost of
                                    Inl err \<Rightarrow> Inl err
                                  | Inr host3 \<Rightarrow> Inr (host1 @ host2 @ host3))))))
         else
           (case CutLast host CHR '':'' of
              None \<Rightarrow> plain
            | Some (_, colonPort) \<Rightarrow>
                if \<not> validOptionalPort colonPort then badPort colonPort else plain))"

definition parseAuthority ::
  "string \<Rightarrow> error + (string \<times> string option) option \<times> string" where
  "parseAuthority authority =
     (case CutLast authority CHR ''@'' of
        None \<Rightarrow>
          (case parseHost authority of
             Inl err \<Rightarrow> Inl err
           | Inr host \<Rightarrow> Inr (None, host))
      | Some (userinfo, atHost) \<Rightarrow>
          (case parseHost (drop 1 atHost) of
             Inl err \<Rightarrow> Inl err
           | Inr host \<Rightarrow>
               if \<not> validUserinfo userinfo then Inl (ErrorString ''net/url: invalid userinfo'')
               else if \<not> Contains userinfo '':'' then
                 (case unescape userinfo encodeUserPassword of
                    Inl err \<Rightarrow> Inl err
                  | Inr username \<Rightarrow> Inr (Some (username, None), host))
               else
                 (case Cut userinfo CHR '':'' of (username, password, _) \<Rightarrow>
                    (case unescape username encodeUserPassword of
                       Inl err \<Rightarrow> Inl err
                     | Inr username' \<Rightarrow>
                         (case unescape password encodeUserPassword of
                            Inl err \<Rightarrow> Inl err
                          | Inr password' \<Rightarrow> Inr (Some (username', Some password'), host))))))"

definition stringContainsCTLByte :: "string \<Rightarrow> bool" where
  "stringContainsCTLByte s = list_ex (\<lambda>b. byte b < 0x20 \<or> b = CHR 0x7F) s"

definition setPath :: "URL \<Rightarrow> string \<Rightarrow> error + URL" where
  "setPath u p =
     (case unescape p encodePath of
        Inl err \<Rightarrow> Inl err
      | Inr path \<Rightarrow> Inr (u\<lparr>Path := path\<rparr>))"

text \<open>The unexported \<^verbatim>\<open>parse(rawURL, viaRequest)\<close> with \<^verbatim>\<open>viaRequest\<close> false.\<close>

definition url_parse :: "string \<Rightarrow> error + URL" where
  "url_parse rawURL =
     (if stringContainsCTLByte rawURL
      then Inl (ErrorString ''net/url: invalid control character in URL'')
      else if rawURL = ''*'' then Inr (emptyURL\<lparr>Path := ''*''\<rparr>)
      else case getScheme rawURL of
        Inl err \<Rightarrow> Inl err
      | Inr (scheme, rest0) \<Rightarrow>
          (let u0 = emptyURL\<lparr>Scheme := ToLower scheme\<rparr>;
               force = (HasSuffix rest0 ''?'' \<and> count_list rest0 CHR ''?'' = 1);
               rest1 = (if force then butlast rest0 else fst (Cut rest0 CHR ''?''));
               u1 = (if force then u0\<lparr>ForceQuery := True\<rparr>
                     else u0\<lparr>RawQuery := fst (snd (Cut rest0 CHR ''?''))\<rparr>)
           in if \<not> HasPrefix rest1 ''/'' \<and> Scheme u1 \<noteq> [] then Inr (u1\<lparr>Opaque := rest1\<rparr>)
              else if \<not> HasPrefix rest1 ''/'' \<and> Contains (fst (Cut rest1 CHR ''/'')) '':''
              then Inl (ErrorString ''first path segment in URL cannot contain colon'')
              else if (Scheme u1 \<noteq> [] \<or> \<not> HasPrefix rest1 ''///'') \<and> HasPrefix rest1 ''//''
              then
                (let afterSlashes = drop 2 rest1;
                     authority = fst (Cut afterSlashes CHR ''/'');
                     rest2 = drop (length authority) afterSlashes
                 in case parseAuthority authority of
                      Inl err \<Rightarrow> Inl err
                    | Inr (user, host) \<Rightarrow> setPath (u1\<lparr>User := user, Host := host\<rparr>) rest2)
              else if Scheme u1 \<noteq> [] \<and> HasPrefix rest1 ''/''
              then setPath (u1\<lparr>OmitHost := True\<rparr>) rest1
              else setPath u1 rest1))"

text \<open>\<^verbatim>\<open>url.Parse\<close>: the fragment is cut off first; an error is wrapped in a
  \<^verbatim>\<open>url.Error\<close> with the operation and the text parsed.\<close>

definition url_Error :: "string \<Rightarrow> string \<Rightarrow> error \<Rightarrow> error" where
  "url_Error op u err = Wrapped (op @ '' '' @ Quote u) err"

definition url_Parse :: "string \<Rightarrow> error + URL" where
  "url_Parse rawURL =
     (case Cut rawURL CHR ''#'' of (u, frag, _) \<Rightarrow>
        (case url_parse u of
           Inl err \<Rightarrow> Inl (url_Error ''parse'' u err)
         | Inr url \<Rightarrow>
             if frag = [] then Inr url
             else (case unescape frag encodeFragment of
                     Inl err \<Rightarrow> Inl (url_Error ''parse'' rawURL err)
                   | Inr f \<Rightarrow> Inr (url\<lparr>Fragment := f\<rparr>))))"

section \<open>Page fetcher (internal/adapters/web_fetcher.go)\<close>

text \<open>
  \<^verbatim>\<open>url.Parse\<close> is a library function: the functions that call it take the parser as a
  parameter, and \<open>url_Parse\<close> above is the parser they are run with. What the fetcher
  and the link checker write to the log is left out, and so is the timeout that Fetch
  passes on to the client: neither has a part in what they return.
\<close>

definition privateHosts :: "string list" where
  "privateHosts = [''localhost'', ''127.0.0.1'', ''::1'', ''0.0.0.0'']"

definition privatePrefixes :: "string list" where
  "privatePrefixes =
     [''10.'', ''172.16.'', ''172.17.'', ''172.18.'', ''172.19.'', ''172.20.'', ''172.21.'',
      ''172.22.'', ''172.23.'', ''172.24.'', ''172.25.'', ''172.26.'', ''172.27.'',
      ''172.28.'', ''172.29.'', ''172.30.'', ''172.31.'', ''192.168.'']"

definition isPrivateOrLocalURL :: "string \<Rightarrow> bool" where
  "isPrivateOrLocalURL host =
     (let hostLower = ToLower host
      in list_ex (\<lambda>privateHost.
                    hostLower = privateHost \<or> HasSuffix hostLower (''.'' @ privateHost))
           privateHosts
         \<or> list_ex (HasPrefix hostLower) privatePrefixes)"

definition validateURL :: "(string \<Rightarrow> error + URL) \<Rightarrow> string \<Rightarrow> error option" where
  "validateURL parse targetURL =
     (if targetURL = [] then Some (ErrorString ''URL cannot be empty'')
      else case parse targetURL of
        Inl err \<Rightarrow> Some (Wrapped ''invalid URL format'' err)
      | Inr parsedURL \<Rightarrow>
          if Scheme parsedURL = []
          then Some (ErrorString ''URL must include a scheme (http or https)'')
          else if Scheme parsedURL \<noteq> ''http'' \<and> Scheme parsedURL \<noteq> ''https''
          then Some (ErrorString
                 (''URL scheme must be http or https, got: '' @ Scheme parsedURL))
          else if Host parsedURL = [] then Some (ErrorString ''URL must include a host'')
          else if isPrivateOrLocalURL (Host parsedURL)
          then Some (ErrorString ''access to private or local networks is not allowed'')
          else None)"

definition isHTMLContent :: "string \<Rightarrow> bool" where
  "isHTMLContent contentType =
     (Contains (ToLower contentType) ''text/html'' \<or>
      Contains (ToLower contentType) ''application/xhtml'')"

record WebFetcherConfig =
  MaxResponseSizeBytes :: int

definition fetchWithRetry ::
  "WebFetcherConfig \<Rightarrow> 'w client \<Rightarrow> string \<Rightarrow> 'w \<Rightarrow> (error + WebPageContent) \<times> 'w" where
  "fetchWithRetry config c targetURL w0 =
     (case Get c targetURL w0 of
        (Inl err, w1) \<Rightarrow>
          (Inl (NewURLNotReachableError targetURL 0 (Some (ErrorString err))), w1)
      | (Inr resp, w1) \<Rightarrow>
          if resp_StatusCode resp < 200 \<or> resp_StatusCode resp \<ge> 300
          then (Inl (NewURLNotReachableError targetURL (resp_StatusCode resp)
                      (Some (ErrorString (''HTTP '' @ Itoa (resp_StatusCode resp) @ '': '' @
                                          resp_Status resp)))), w1)
          else if int (length (Body resp)) > MaxResponseSizeBytes config
          then (Inl (NewDomainError ''RESPONSE_TOO_LARGE''
                      (''Response size '' @ Itoa (int (length (Body resp))) @
                       '' bytes exceeds maximum allowed '' @
                       Itoa (MaxResponseSizeBytes config) @ '' bytes'')
                      413 (Some (ErrorString ''response too large''))), w1)
          else (Inr \<lparr>WebPageContent.URL = Request_URL resp,
                     WebPageContent.StatusCode = resp_StatusCode resp,
                     HTML = Body resp,
                     ContentType = Header_Get (Header resp) ''Content-Type'',
                     Headers = map (\<lambda>kv. (fst kv, hd (snd kv)))
                                 (filter (\<lambda>kv. snd kv \<noteq> []) (Header resp))\<rparr>, w1))"

definition Fetch ::
  "(string \<Rightarrow> error + URL) \<Rightarrow> WebFetcherConfig \<Rightarrow> 'w breaker \<Rightarrow> 'w client \<Rightarrow>
   string \<Rightarrow> 'w \<Rightarrow> (error + WebPageContent) \<times> 'w" where
  "Fetch parse config cb c targetURL w0 =
     (case validateURL parse targetURL of
        Some err \<Rightarrow> (Inl (NewInvalidURLError targetURL (Some err)), w0)
      | None \<Rightarrow>
          (case Execute cb (fetchWithRetry config c targetURL) w0 of
             (Inl err, w1) \<Rightarrow>
               if is_ErrOpenState err
               then (Inl (NewDomainError ''CIRCUIT_BREAKER_OPEN''
                           ''Service temporarily unavailable due to repeated failures''
                           503 (Some err)), w1)
               else (Inl err, w1)
           | (Inr content, w1) \<Rightarrow> (Inr content, w1)))"

subsection \<open>A world of canned HTTP exchanges, for concrete runs\<close>

text \<open>
  The breaker in the manner of gobreaker: it is open once the given number of failures has
  been reported and then rejects with \<open>ErrOpenState\<close>; while it is half-open it lets at
  most \<open>max_requests\<close> requests run at a time and rejects the others with
  \<open>ErrTooManyRequests\<close>. The client answers HEAD and GET from two tables.
\<close>

record net =
  failures :: nat
  trip_at :: nat
  half_open :: bool
  in_flight :: nat
  max_requests :: nat
  head_table :: "(string \<times> (string + Response)) list"
  get_table :: "(string \<times> (string + Response)) list"

definition net_breaker :: "net breaker" where
  "net_breaker =
     \<lparr>beforeRequest = (\<lambda>w.
        if failures w \<ge> trip_at w then (Some ErrOpenState, w)
        else if half_open w \<and> in_flight w \<ge> max_requests w then (Some ErrTooManyRequests, w)
        else (None, w)),
      afterRequest = (\<lambda>ok w. if ok then w else w\<lparr>failures := Suc (failures w)\<rparr>)\<rparr>"

definition answer :: "(string \<times> (string + Response)) list \<Rightarrow> string \<Rightarrow> string + Response" where
  "answer table url = (case map_of table url of None \<Rightarrow> Inl ''no such host'' | Some r \<Rightarrow> r)"

definition net_client :: "net client" where
  "net_client =
     \<lparr>Head = (\<lambda>url w. (answer (head_table w) url, w)),
      Get = (\<lambda>url w. (answer (get_table w) url, w))\<rparr>"

definition reply :: "string \<Rightarrow> int \<Rightarrow> string \<Rightarrow> string \<Rightarrow> Response" where
  "reply url code line body =
     \<lparr>Request_URL = url, resp_StatusCode = code, resp_Status = line, Body = body,
      Header = [(''Content-Type'', [''text/html''])]\<rparr>"

definition net0 :: net where
  "net0 =
     \<lparr>failures = 0, trip_at = 5, half_open = False, in_flight = 0, max_requests = 1,
      head_table =
        [(''https://ok.example/'', Inr (reply ''https://ok.example/'' 200 ''200 OK'' [])),
         (''https://gone.example/'', Inr (reply ''https://gone.example/'' 404 ''404 Not Found'' [])),
         (''https://nohead.example/'', Inl ''method not allowed'')],
      get_table =
        [(''https://ok.example/'', Inr (reply ''https://ok.example/'' 200 ''200 OK'' ''<html></html>'')),
         (''https://gone.example/'', Inr (reply ''https://gone.example/'' 404 ''404 Not Found'' [])),
         (''https://nohead.example/'',
            Inr (reply ''https://nohead.example/'' 500 ''500 Internal Server Error'' []))]\<rparr>"

section \<open>HTML analyzer (internal/adapters/html_analyzer.go)\<close>

subsection \<open>Parsed documents and selections (goquery)\<close>

text \<open>
  The analyzer reads a document through goquery, which parses the HTML text into a tree of
  nodes first. The functions below take the parsed tree: an element has its tag name (in
  lower case, as the parser leaves it), its attributes in order and its children. Parsing a
  string never fails (the parser only reports its reader's errors), so the error branch
  after \<^verbatim>\<open>NewDocumentFromReader\<close> is not reached.
\<close>

datatype node =
    Element string "(string \<times> string) list" "node list"
  | Text string
  | Comment string

fun tag :: "node \<Rightarrow> string" where
  "tag (Element t as cs) = t"
| "tag _ = []"

fun attrs :: "node \<Rightarrow> (string \<times> string) list" where
  "attrs (Element t as cs) = as"
| "attrs _ = []"

fun is_Element :: "node \<Rightarrow> bool" where
  "is_Element (Element t as cs) = True"
| "is_Element _ = False"

text \<open>The nodes below a node, in document order.\<close>

fun descendants :: "node \<Rightarrow> node list" where
  "descendants (Element t as cs) = concat (map (\<lambda>c. c # descendants c) cs)"
| "descendants _ = []"

text \<open>\<^verbatim>\<open>Selection.Find(selector)\<close> on a single node: the elements below it that match
  the selector, in document order.\<close>

definition Find :: "node \<Rightarrow> (node \<Rightarrow> bool) \<Rightarrow> node list" where
  "Find s sel = filter (\<lambda>n. is_Element n \<and> sel n) (descendants s)"

text \<open>\<^verbatim>\<open>Selection.Attr(name)\<close> is the value of the first attribute of that name;
  \<^verbatim>\<open>AttrOr\<close> gives a default when there is none.\<close>

definition Attr :: "node \<Rightarrow> string \<Rightarrow> string option" where
  "Attr s name = map_of (attrs s) name"

definition AttrOr :: "node \<Rightarrow> string \<Rightarrow> string \<Rightarrow> string" where
  "AttrOr s name dflt = (case Attr s name of None \<Rightarrow> dflt | Some v \<Rightarrow> v)"

text \<open>\<^verbatim>\<open>Selection.Text()\<close>: the text nodes below the node, concatenated.\<close>

fun getNodeText :: "node \<Rightarrow> string" where
  "getNodeText (Text d) = d"
| "getNodeText (Element t as cs) = concat (map getNodeText cs)"
| "getNodeText (Comment d) = []"

text \<open>
  The selectors used by the analyzer. A type selector compares the tag name; \<open>[href]\<close>
  asks for an attribute of that name; \<open>[type='password']\<close> asks for an attribute of that
  name with exactly that value.
\<close>

definition sel_p_href :: "node \<Rightarrow> bool" where
  "sel_p_href n = (tag n = ''p'' \<and> ''href'' \<in> fst ` set (attrs n))"

definition sel_form :: "node \<Rightarrow> bool" where
  "sel_form n = (tag n = ''form'')"

definition sel_fields :: "node \<Rightarrow> bool" where
  "sel_fields n = (tag n = ''input'' \<or> tag n = ''select'' \<or> tag n = ''textarea'')"

definition sel_password_input :: "node \<Rightarrow> bool" where
  "sel_password_input n = (tag n = ''input'' \<and> (''type'', ''password'') \<in> set (attrs n))"

definition sel_any :: "node \<Rightarrow> bool" where
  "sel_any n = True"

subsection \<open>\<^verbatim>\<open>strings.TrimSpace\<close> and \<^verbatim>\<open>strings.ToUpper\<close>\<close>

text \<open>
  The white space of \<^verbatim>\<open>unicode.IsSpace\<close>, as UTF-8 byte sequences: tab, line feed,
  vertical tab, form feed, carriage return, space, U+0085, U+00A0, U+1680, U+2000 to
  U+200A, U+2028, U+2029, U+202F, U+205F and U+3000.
\<close>

definition space_encodings :: "string list" where
  "space_encodings =
     [[CHR 0x09], [CHR 0x0A], [CHR 0x0B], [CHR 0x0C], [CHR 0x0D], [CHR 0x20],
      [CHR 0xC2, CHR 0x85], [CHR 0xC2, CHR 0xA0], [CHR 0xE1, CHR 0x9A, CHR 0x80],
      [CHR 0xE2, CHR 0x80, CHR 0x80], [CHR 0xE2, CHR 0x80, CHR 0x81],
      [CHR 0xE2, CHR 0x80, CHR 0x82], [CHR 0xE2, CHR 0x80, CHR 0x83],
      [CHR 0xE2, CHR 0x80, CHR 0x84], [CHR 0xE2, CHR 0x80, CHR 0x85],
      [CHR 0xE2, CHR 0x80, CHR 0x86], [CHR 0xE2, CHR 0x80, CHR 0x87],
      [CHR 0xE2, CHR 0x80, CHR 0x88], [CHR 0xE2, CHR 0x80, CHR 0x89],
      [CHR 0xE2, CHR 0x80, CHR 0x8A], [CHR 0xE2, CHR 0x80, CHR 0xA8],
      [CHR 0xE2, CHR 0x80, CHR 0xA9], [CHR 0xE2, CHR 0x80, CHR 0xAF],
      [CHR 0xE2, CHR 0x81, CHR 0x9F], [CHR 0xE3, CHR 0x80, CHR 0x80]]"

text \<open>The number of bytes of the white-space rune a string starts with (0 if it starts
  with none), and of the one it ends with.\<close>

definition leading_space :: "string \<Rightarrow> nat" where
  "leading_space s =
     (case find (HasPrefix s) space_encodings of None \<Rightarrow> 0 | Some e \<Rightarrow> length e)"

definition trailing_space :: "string \<Rightarrow> nat" where
  "trailing_space s =
     (case find (HasSuffix s) space_encodings of None \<Rightarrow> 0 | Some e \<Rightarrow> length e)"

function TrimLeftSpace :: "string \<Rightarrow> string" where
  "TrimLeftSpace s =
     (if leading_space s = 0 then s else TrimLeftSpace (drop (leading_space s) s))"
  by pat_completeness auto
termination
proof (relation "measure length")
  show "wf (measure length)" by simp
next
  fix s :: string
  assume pos: "leading_space s \<noteq> 0"
  then obtain e where e: "find (HasPrefix s) space_encodings = Some e" "e \<noteq> []"
    by (auto simp: leading_space_def split: option.splits)
  then have "HasPrefix s e" by (auto simp: find_Some_iff)
  with e(2) have "s \<noteq> []" by (auto simp: HasPrefix_def)
  with pos show "(drop (leading_space s) s, s) \<in> measure length" by simp
qed

function TrimRightSpace :: "string \<Rightarrow> string" where
  "TrimRightSpace s =
     (if trailing_space s = 0 then s
      else TrimRightSpace (take (length s - trailing_space s) s))"
  by pat_completeness auto
termination
proof (relation "measure length")
  show "wf (measure length)" by simp
next
  fix s :: string
  assume pos: "trailing_space s \<noteq> 0"
  then obtain e where e: "find (HasSuffix s) space_encodings = Some e" "e \<noteq> []"
    by (auto simp: trailing_space_def split: option.splits)
  then have "HasSuffix s e" by (auto simp: find_Some_iff)
  with e(2) have "s \<noteq> []" by (auto simp: HasSuffix_def)
  with pos show "(take (length s - trailing_space s) s, s) \<in> measure length" by simp
qed

definition TrimSpace :: "string \<Rightarrow> string" where
  "TrimSpace s = TrimRightSpace (TrimLeftSpace s)"

definition upper_char :: "char \<Rightarrow> char" where
  "upper_char c = (if is_lower c then char_of (byte c - 32) else c)"

text \<open>
  \<^verbatim>\<open>strings.ToUpper\<close>, like \<open>ToLower\<close> above: the two runes outside ASCII with an
  ASCII upper case are U+017F (bytes C5 BF), which gives S, and U+0131 (bytes C4 B1), which
  gives I.
\<close>

fun ToUpper :: "string \<Rightarrow> string" where
  "ToUpper [] = []"
| "ToUpper (c # cs) =
     (if c = CHR 0xC5 \<and> take 1 cs = [CHR 0xBF] then CHR ''S'' # ToUpper (drop 1 cs)
      else if c = CHR 0xC4 \<and> take 1 cs = [CHR 0xB1] then CHR ''I'' # ToUpper (drop 1 cs)
      else upper_char c # ToUpper cs)"

subsection \<open>Links\<close>

text \<open>
  \<^verbatim>\<open>ResolveReference\<close> and \<^verbatim>\<open>String\<close> are methods of the library's URL, taken as
  parameters like the parser. The loop over the selection keeps the links found so far and
  the set \<^verbatim>\<open>seen\<close> of resolved URLs.
\<close>

definition link_step ::
  "(string \<Rightarrow> error + URL) \<Rightarrow> (URL \<Rightarrow> URL \<Rightarrow> URL) \<Rightarrow> (URL \<Rightarrow> string) \<Rightarrow> URL \<Rightarrow>
   Link list \<times> string set \<Rightarrow> node \<Rightarrow> Link list \<times> string set" where
  "link_step parse resolve str baseURLParsed acc s =
     (case acc of (links, seen) \<Rightarrow>
        (case Attr s ''href'' of
           None \<Rightarrow> (links, seen)
         | Some href \<Rightarrow>
             if href = [] then (links, seen)
             else
               (case parse href of
                  Inl err \<Rightarrow> (links, seen)
                | Inr parsedURL \<Rightarrow>
                    (let resolvedURL = resolve baseURLParsed parsedURL;
                         finalURL = str resolvedURL
                     in if finalURL \<in> seen then (links, seen)
                        else if finalURL = [] \<or> HasPrefix href ''#'' \<or>
                                HasPrefix href ''javascript:'' \<or>
                                HasPrefix href ''mailto:'' \<or> HasPrefix href ''tel:''
                        then (links, insert finalURL seen)
                        else (links @
                                [\<lparr>Link.URL = finalURL,
                                  Link.Type = (if Host resolvedURL = Host baseURLParsed
                                               then LinkTypeInternal
                                               else LinkTypeExternal)\<rparr>],
                              insert finalURL seen)))))"

definition ExtractLinks ::
  "(string \<Rightarrow> error + URL) \<Rightarrow> (URL \<Rightarrow> URL \<Rightarrow> URL) \<Rightarrow> (URL \<Rightarrow> string) \<Rightarrow>
   node \<Rightarrow> string \<Rightarrow> error + Link list" where
  "ExtractLinks parse resolve str doc baseURL =
     (case parse baseURL of
        Inl err \<Rightarrow> Inl err
      | Inr baseURLParsed \<Rightarrow>
          Inr (fst (foldl (link_step parse resolve str baseURLParsed) ([], {})
                      (Find doc sel_p_href))))"

subsection \<open>Forms\<close>

text \<open>The names collected from the fields of a form: the non-empty ones, each once, in
  order of first occurrence.\<close>

fun collect_names :: "string list \<Rightarrow> string list \<Rightarrow> string list" where
  "collect_names fieldNames [] = fieldNames"
| "collect_names fieldNames (name # names) =
     (if name \<noteq> [] \<and> name \<notin> set fieldNames then collect_names (fieldNames @ [name]) names
      else collect_names fieldNames names)"

definition isLikelyLoginForm :: "string list \<Rightarrow> node \<Rightarrow> bool" where
  "isLikelyLoginForm fieldNames formSelection =
     (let fieldMap = set (map ToLower fieldNames);
          hasUsernameField =
            (''username'' \<in> fieldMap \<or> ''user'' \<in> fieldMap \<or> ''email'' \<in> fieldMap \<or>
             ''login'' \<in> fieldMap \<or> ''userid'' \<in> fieldMap \<or> ''user_name'' \<in> fieldMap \<or>
             ''user_email'' \<in> fieldMap \<or> ''account'' \<in> fieldMap);
          hasPasswordField =
            (''password'' \<in> fieldMap \<or> ''passwd'' \<in> fieldMap \<or> ''pwd'' \<in> fieldMap \<or>
             ''pass'' \<in> fieldMap \<or> ''user_password'' \<in> fieldMap \<or>
             ''userpassword'' \<in> fieldMap);
          hasPasswordInput = (Find formSelection sel_password_input \<noteq> []);
          formText = ToLower (getNodeText formSelection);
          hasLoginText =
            (Contains formText ''login'' \<or> Contains formText ''sign in'' \<or>
             Contains formText ''log in'' \<or> Contains formText ''signin'' \<or>
             Contains formText ''authenticate'');
          hasLoginClass =
            list_ex (\<lambda>s. Contains (ToLower (AttrOr s ''class'' [])) ''login'' \<or>
                          Contains (ToLower (AttrOr s ''class'' [])) ''signin'' \<or>
                          Contains (ToLower (AttrOr s ''id'' [])) ''login'' \<or>
                          Contains (ToLower (AttrOr s ''id'' [])) ''signin'')
              (Find formSelection sel_any)
      in (hasUsernameField \<and> hasPasswordField) \<or> hasPasswordInput \<or>
         (hasLoginText \<and> (hasUsernameField \<or> hasPasswordField)) \<or> hasLoginClass)"

definition form_method :: "node \<Rightarrow> string" where
  "form_method s =
     (let method = ToUpper (TrimSpace (AttrOr s ''method'' ''GET''))
      in if method \<noteq> ''POST'' \<and> method \<noteq> ''GET'' then ''GET'' else method)"

definition form_action ::
  "(string \<Rightarrow> error + URL) \<Rightarrow> (URL \<Rightarrow> URL \<Rightarrow> URL) \<Rightarrow> (URL \<Rightarrow> string) \<Rightarrow> URL \<Rightarrow>
   node \<Rightarrow> string" where
  "form_action parse resolve str baseURLParsed s =
     (let action = AttrOr s ''action'' []
      in if action \<noteq> [] then
           (case parse action of
              Inr parsedAction \<Rightarrow> str (resolve baseURLParsed parsedAction)
            | Inl err \<Rightarrow> action)
         else action)"

definition form_fields :: "node \<Rightarrow> string list" where
  "form_fields s = collect_names [] (map (\<lambda>field. AttrOr field ''name'' []) (Find s sel_fields))"

definition ExtractForms ::
  "(string \<Rightarrow> error + URL) \<Rightarrow> (URL \<Rightarrow> URL \<Rightarrow> URL) \<Rightarrow> (URL \<Rightarrow> string) \<Rightarrow>
   node \<Rightarrow> string \<Rightarrow> FormAnalysis" where
  "ExtractForms parse resolve str doc baseURL =
     (case parse baseURL of
        Inl err \<Rightarrow> \<lparr>FormAnalysis.TotalCount = 0, LoginFormsDetected = 0, LoginFormDetails = []\<rparr>
      | Inr baseURLParsed \<Rightarrow>
          (let forms = Find doc sel_form;
               loginForms =
                 map (\<lambda>s. \<lparr>Method = form_method s,
                            Action = form_action parse resolve str baseURLParsed s,
                            Fields = form_fields s\<rparr>)
                   (filter (\<lambda>s. isLikelyLoginForm (form_fields s) s) forms)
           in \<lparr>FormAnalysis.TotalCount = length forms,
               LoginFormsDetected = length loginForms,
               LoginFormDetails = loginForms\<rparr>))"

subsection \<open>Documents for concrete runs\<close>

text \<open>The tree the parser builds for a page whose body holds the four anchors
  \<^verbatim>\<open><a href="https://example.com/p">\<close> (twice), \<^verbatim>\<open><a href="#x">\<close> and
  \<^verbatim>\<open><a href="javascript:void(0)">\<close>.\<close>

definition page :: "node list \<Rightarrow> node" where
  "page body =
     Element [] [] [Element ''html'' [] [Element ''head'' [] [], Element ''body'' [] body]]"

definition anchors_doc :: node where
  "anchors_doc =
     page [Element ''a'' [(''href'', ''https://example.com/p'')] [Text ''one''],
           Element ''a'' [(''href'', ''https://example.com/p'')] [Text ''two''],
           Element ''a'' [(''href'', ''#x'')] [Text ''three''],
           Element ''a'' [(''href'', ''javascript:void(0)'')] [Text ''four'']]"

text \<open>A form with method post whose only field is
  \<^verbatim>\<open><input type="password" name="pw">\<close>.\<close>

definition pw_form :: node where
  "pw_form =
     Element ''form'' [(''method'', ''post'')]
       [Element ''input'' [(''type'', ''password''), (''name'', ''pw'')] []]"

definition pw_doc :: node where
  "pw_doc = page [pw_form]"

subsection \<open>HTML version: the doctype patterns (Go's regexp package)\<close>

text \<open>
  The patterns of ExtractHTMLVersion use three constructs of the regular expression
  syntax: a literal character under the flag \<^verbatim>\<open>(?i)\<close>, \<^verbatim>\<open>\s+\<close> and \<^verbatim>\<open>\s*\<close>. The
  class \<^verbatim>\<open>\s\<close> is tab, line feed, form feed, carriage return and space. Under \<^verbatim>\<open>(?i)\<close> a
  literal matches the runes with the same simple case folding: a letter matches itself in
  both cases, and outside ASCII k also matches U+212A (bytes E2 84 AA) and s also matches
  U+017F (bytes C5 BF).
\<close>

datatype tok = Lit char | Spaces1 | Spaces0

definition is_re_space :: "char \<Rightarrow> bool" where
  "is_re_space x = (x = CHR 0x09 \<or> x = CHR 0x0A \<or> x = CHR 0x0C \<or> x = CHR 0x0D \<or> x = CHR 0x20)"

text \<open>One literal against the start of the input: the input after the rune that matches
  it, if one does.\<close>

fun lit_match :: "char \<Rightarrow> string \<Rightarrow> string option" where
  "lit_match c [] = None"
| "lit_match c (x # xs) =
     (if lower_char x = lower_char c then Some xs
      else if lower_char c = CHR ''k'' \<and> x = CHR 0xE2 \<and> take 2 xs = [CHR 0x84, CHR 0xAA]
      then Some (drop 2 xs)
      else if lower_char c = CHR ''s'' \<and> x = CHR 0xC5 \<and> take 1 xs = [CHR 0xBF]
      then Some (drop 1 xs)
      else None)"

lemma lit_match_shorter: "lit_match c s = Some rest \<Longrightarrow> length rest < length s"
  by (cases s) (auto split: if_splits)

text \<open>A pattern against the start of the input, by backtracking.\<close>

function match_here :: "tok list \<Rightarrow> string \<Rightarrow> bool" where
  "match_here [] s = True"
| "match_here (Lit c # p) s =
     (case lit_match c s of None \<Rightarrow> False | Some rest \<Rightarrow> match_here p rest)"
| "match_here (Spaces1 # p) [] = False"
| "match_here (Spaces1 # p) (x # xs) = (is_re_space x \<and> match_here (Spaces0 # p) xs)"
| "match_here (Spaces0 # p) [] = match_here p []"
| "match_here (Spaces0 # p) (x # xs) =
     (match_here p (x # xs) \<or> (is_re_space x \<and> match_here (Spaces0 # p) xs))"
  by pat_completeness auto
termination
  by (relation "measure (\<lambda>(p, s). length p + length s)")
     (auto dest: lit_match_shorter)

text \<open>\<^verbatim>\<open>regexp.MatchString\<close>: the pattern is not anchored, it may match anywhere.\<close>

fun MatchString :: "tok list \<Rightarrow> string \<Rightarrow> bool" where
  "MatchString p [] = match_here p []"
| "MatchString p (x # xs) = (match_here p (x # xs) \<or> MatchString p xs)"

text \<open>A pattern that is words separated by \<^verbatim>\<open>\s+\<close>.\<close>

fun words_pattern :: "string list \<Rightarrow> tok list" where
  "words_pattern [] = []"
| "words_pattern [w] = map Lit w"
| "words_pattern (w # ws) = map Lit w @ Spaces1 # words_pattern ws"

text \<open>\<^verbatim>\<open>(?i)<!DOCTYPE\s+html\s*>\<close>\<close>

definition html5Regex :: "tok list" where
  "html5Regex = words_pattern [''<!DOCTYPE'', ''html''] @ Spaces0 # map Lit ''>''"

text \<open>\<^verbatim>\<open>(?i)<!DOCTYPE\s+html\s+PUBLIC\s+"-//W3C//DTD\s+\<close> followed by the words of one
  document type; the last word ends with the closing quote.\<close>

definition public_doctype :: "string list \<Rightarrow> tok list" where
  "public_doctype ws =
     words_pattern ([''<!DOCTYPE'', ''html'', ''PUBLIC'', CHR 0x22 # ''-//W3C//DTD''] @ ws)"

definition html401Patterns :: "tok list list" where
  "html401Patterns =
     [public_doctype [''HTML'', ''4.01//EN'' @ [CHR 0x22]],
      public_doctype [''HTML'', ''4.01'', ''Transitional//EN'' @ [CHR 0x22]],
      public_doctype [''HTML'', ''4.01'', ''Frameset//EN'' @ [CHR 0x22]]]"

definition xhtml10Patterns :: "tok list list" where
  "xhtml10Patterns =
     [public_doctype [''XHTML'', ''1.0'', ''Strict//EN'' @ [CHR 0x22]],
      public_doctype [''XHTML'', ''1.0'', ''Transitional//EN'' @ [CHR 0x22]],
      public_doctype [''XHTML'', ''1.0'', ''Frameset//EN'' @ [CHR 0x22]]]"

definition xhtml11Pattern :: "tok list" where
  "xhtml11Pattern = public_doctype [''XHTML'', ''1.1//EN'' @ [CHR 0x22]]"

text \<open>\<^verbatim>\<open>(?i)<\?xml\s+version\<close>\<close>

definition xmlDeclPattern :: "tok list" where
  "xmlDeclPattern = words_pattern [''<?xml'', ''version'']"

definition ExtractHTMLVersion :: "string \<Rightarrow> HTMLVersion" where
  "ExtractHTMLVersion html0 =
     (let html = TrimSpace html0
      in if MatchString html5Regex html then HTML5
         else if list_ex (\<lambda>pattern. MatchString pattern html) html401Patterns then HTML401
         else if list_ex (\<lambda>pattern. MatchString pattern html) xhtml10Patterns then XHTML10
         else if MatchString xhtml11Pattern html then XHTML11
         else if MatchString xmlDeclPattern html then XHTML10
         else Unknown)"

subsection \<open>What a pattern means\<close>

text \<open>
  The meaning of the patterns in the words of the regular expression syntax, to compare the
  matcher with: the texts a literal stands for under \<^verbatim>\<open>(?i)\<close>, the set of texts a
  pattern matches as a whole, and a text having a match somewhere inside.
\<close>

definition lit_forms :: "char \<Rightarrow> string set" where
  "lit_forms c =
     {[x] |x. lower_char x = lower_char c} \<union>
     (if lower_char c = CHR ''k'' then {[CHR 0xE2, CHR 0x84, CHR 0xAA]} else {}) \<union>
     (if lower_char c = CHR ''s'' then {[CHR 0xC5, CHR 0xBF]} else {})"

fun denotes :: "tok list \<Rightarrow> string set" where
  "denotes [] = {[]}"
| "denotes (Lit c # p) = {r @ w |r w. r \<in> lit_forms c \<and> w \<in> denotes p}"
| "denotes (Spaces1 # p) =
     {ws @ w |ws w. ws \<noteq> [] \<and> list_all is_re_space ws \<and> w \<in> denotes p}"
| "denotes (Spaces0 # p) = {ws @ w |ws w. list_all is_re_space ws \<and> w \<in> denotes p}"

definition has_match :: "tok list \<Rightarrow> string \<Rightarrow> bool" where
  "has_match p s = (\<exists>w \<in> denotes p. sublist w s)"

text \<open>The bytes that occur in the encodings of white space.\<close>

definition space_bytes :: "char set" where
  "space_bytes = \<Union> (set ` set space_encodings)"

text \<open>A pattern in the shape of all patterns of ExtractHTMLVersion: it starts with the
  literal \<^verbatim>\<open><\<close>, and ends with a literal none of whose forms is a byte of white space.\<close>

definition doctype_like :: "tok list \<Rightarrow> bool" where
  "doctype_like p =
     (\<exists>q c. p = Lit CHR ''<'' # q @ [Lit c] \<and> lower_char c \<noteq> CHR ''k'' \<and>
            lower_char c \<noteq> CHR ''s'' \<and> (\<forall>x. lower_char x = lower_char c \<longrightarrow> x \<notin> space_bytes))"

text \<open>The document type declaration of XHTML 1.1.\<close>

definition xhtml11_doctype :: string where
  "xhtml11_doctype =
     ''<!DOCTYPE html PUBLIC '' @ CHR 0x22 # ''-//W3C//DTD XHTML 1.1//EN'' @ CHR 0x22 # '' '' @
     CHR 0x22 # ''http://www.w3.org/TR/xhtml11/DTD/xhtml11.dtd'' @ CHR 0x22 # ''>''"

section \<open>Theorems\<close>

subsection \<open>Application service\<close>

lemma calls_simps [simp]:
  "calls P [] = 0"
  "calls P (c # cs) = (if P c then Suc (calls P cs) else calls P cs)"
  by (simp_all add: calls_def)

lemma traced_ports [simp]:
  "analysisRepo_Find (traced s) i (w, t) =
     (fst (analysisRepo_Find s i w), snd (analysisRepo_Find s i w), t @ [DurableFind i])"
  "analysisRepo_Save (traced s) url options (w, t) =
     (fst (analysisRepo_Save s url options w), snd (analysisRepo_Save s url options w),
      t @ [DurableSave url options])"
  "cacheRepo_Find (traced s) i (w, t) =
     (fst (cacheRepo_Find s i w), snd (cacheRepo_Find s i w), t @ [CacheFind i])"
  "cacheRepo_Set (traced s) a (w, t) =
     (fst (cacheRepo_Set s a w), snd (cacheRepo_Set s a w), t @ [CacheSet a])"
  "logger_Error (traced s) msg err (w, t) = (logger_Error s msg err w, t @ [LogError msg err])"
  by (simp_all add: traced_def split: prod.splits)

text \<open>
  C3. FetchAnalysis is a cache-aside read. When the cache's Find succeeds, the cached record
  is returned, the world is the one the cache's Find left, and the only call made is that
  Find: the durable store's Find is not called. When the cache's Find fails (a miss or any
  other error), the durable store's Find is called exactly once, on the world the cache left.
  If that read fails, its error is the result of FetchAnalysis (wrapped with the prefix
  "failed to find analysis"), and the cache's Set is not called. If that read succeeds, the
  cache's Set is called exactly once with the record read, on the world the read left, and
  the record is returned whatever Set answers; an error of Set is only logged. In every case
  the world FetchAnalysis leaves is the one its last call left, and the calls are given in
  order, as the collaborators saw them.
\<close>

theorem FetchAnalysis_cache_aside:
  "(cacheRepo_Find s i w = (Inr a, w1) \<longrightarrow>
      FetchAnalysis s i w = (Inr a, w1) \<and>
      FetchAnalysis (traced s) i (w, []) = (Inr a, w1, [CacheFind i]) \<and>
      calls is_DurableFind (snd (snd (FetchAnalysis (traced s) i (w, [])))) = 0) \<and>
   (cacheRepo_Find s i w = (Inl e, w1) \<longrightarrow>
      calls is_DurableFind (snd (snd (FetchAnalysis (traced s) i (w, [])))) = 1 \<and>
      (analysisRepo_Find s i w1 = (Inl e', w2) \<longrightarrow>
         FetchAnalysis s i w = (Inl (Wrapped ''failed to find analysis'' e'), w2) \<and>
         FetchAnalysis (traced s) i (w, []) =
           (Inl (Wrapped ''failed to find analysis'' e'), w2, [CacheFind i, DurableFind i])) \<and>
      (analysisRepo_Find s i w1 = (Inr a, w2) \<longrightarrow>
         fst (FetchAnalysis s i w) = Inr a \<and>
         calls is_CacheSet (snd (snd (FetchAnalysis (traced s) i (w, [])))) = 1 \<and>
         (cacheRepo_Set s a w2 = (None, w3) \<longrightarrow>
            FetchAnalysis s i w = (Inr a, w3) \<and>
            FetchAnalysis (traced s) i (w, []) =
              (Inr a, w3, [CacheFind i, DurableFind i, CacheSet a])) \<and>
         (cacheRepo_Set s a w2 = (Some cacheErr, w3) \<longrightarrow>
            FetchAnalysis s i w =
              (Inr a, logger_Error s ''failed to save analysis to the cache'' cacheErr w3) \<and>
            FetchAnalysis (traced s) i (w, []) =
              (Inr a, logger_Error s ''failed to save analysis to the cache'' cacheErr w3,
               [CacheFind i, DurableFind i, CacheSet a,
                LogError ''failed to save analysis to the cache'' cacheErr]))))"
  by (auto simp: FetchAnalysis_def split: prod.splits sum.splits option.splits)


lemma mem_cache_down:
  "cacheRepo_Find mem_ports i world0 = (Inl ErrCacheUnavailable, world0)"
  by (simp add: mem_ports_def world0_def)

lemma mem_db_a1:
  "analysisRepo_Find mem_ports ''a1'' world0 = (Inr (stored ''a1'' ''completed''), world0)"
  by (simp add: mem_ports_def world0_def stored_def)

lemma mem_db_zz:
  "analysisRepo_Find mem_ports ''zz'' world0 =
     (Inl (ErrorString ''analysis with ID zz not found''), world0)"
  by (simp add: mem_ports_def world0_def stored_def)

lemma mem_set_world0:
  "cacheRepo_Set mem_ports a world0 = (Some ErrCacheUnavailable, world0)"
  by (simp add: mem_ports_def world0_def)

lemma mem_log:
  "logger_Error mem_ports msg err w = w\<lparr>logged := logged w @ [(msg, err)]\<rparr>"
  by (simp add: mem_ports_def)

lemma mem_cache_c1:
  "cacheRepo_Find mem_ports ''c1'' world1 = (Inr (stored ''c1'' ''failed''), world1)"
  by (simp add: mem_ports_def world1_def stored_def)

lemma mem_cache_c2:
  "cacheRepo_Find mem_ports ''c2'' world1 = (Inr (stored ''c2'' ''archived''), world1)"
  by (simp add: mem_ports_def world1_def stored_def)

lemma mem_cache_miss_a1:
  "cacheRepo_Find mem_ports ''a1'' world1 = (Inl (ErrorString ''key not found''), world1)"
  by (simp add: mem_ports_def world1_def stored_def)

lemma mem_db_a1_world1:
  "analysisRepo_Find mem_ports ''a1'' world1 = (Inr (stored ''a1'' ''completed''), world1)"
  by (simp add: mem_ports_def world1_def stored_def)

lemma mem_set_world1:
  "cacheRepo_Set mem_ports (stored ''a1'' ''completed'') world1 =
     (None, world1\<lparr>cache_entries :=
        [stored ''a1'' ''completed'', stored ''c1'' ''failed'', stored ''c2'' ''archived'']\<rparr>)"
  by (simp add: mem_ports_def world1_def stored_def)

theorem FetchAnalysis_cache_aside_witness:
  "(FetchAnalysis mem_ports ''c1'' world1 = (Inr (stored ''c1'' ''failed''), world1) \<and>
    FetchAnalysis (traced mem_ports) ''c1'' (world1, []) =
      (Inr (stored ''c1'' ''failed''), world1, [CacheFind ''c1''])) \<and>
   (FetchAnalysis mem_ports ''a1'' world1 =
      (Inr (stored ''a1'' ''completed''),
       world1\<lparr>cache_entries :=
         [stored ''a1'' ''completed'', stored ''c1'' ''failed'', stored ''c2'' ''archived'']\<rparr>) \<and>
    FetchAnalysis (traced mem_ports) ''a1'' (world1, []) =
      (Inr (stored ''a1'' ''completed''),
       world1\<lparr>cache_entries :=
         [stored ''a1'' ''completed'', stored ''c1'' ''failed'', stored ''c2'' ''archived'']\<rparr>,
       [CacheFind ''a1'', DurableFind ''a1'', CacheSet (stored ''a1'' ''completed'')])) \<and>
   (FetchAnalysis mem_ports ''a1'' world0 =
      (Inr (stored ''a1'' ''completed''),
       world0\<lparr>logged := [(''failed to save analysis to the cache'', ErrCacheUnavailable)]\<rparr>) \<and>
    calls is_DurableFind (snd (snd (FetchAnalysis (traced mem_ports) ''a1'' (world0, [])))) = 1 \<and>
    calls is_CacheSet (snd (snd (FetchAnalysis (traced mem_ports) ''a1'' (world0, [])))) = 1) \<and>
   (FetchAnalysis mem_ports ''zz'' world0 =
      (Inl (Wrapped ''failed to find analysis'' (ErrorString ''analysis with ID zz not found'')),
       world0) \<and>
    FetchAnalysis (traced mem_ports) ''zz'' (world0, []) =
      (Inl (Wrapped ''failed to find analysis'' (ErrorString ''analysis with ID zz not found'')),
       world0, [CacheFind ''zz'', DurableFind ''zz'']))"
proof -
  let ?msg = "''failed to save analysis to the cache''"
  have logged0: "logged world0 = []" by (simp add: world0_def)
  from FetchAnalysis_cache_aside
         [where s = mem_ports and i = "''c1''" and w = world1 and a = "stored ''c1'' ''failed''"
            and ?w1.0 = world1]
       mem_cache_c1
  have one: "FetchAnalysis mem_ports ''c1'' world1 = (Inr (stored ''c1'' ''failed''), world1) \<and>
    FetchAnalysis (traced mem_ports) ''c1'' (world1, []) =
      (Inr (stored ''c1'' ''failed''), world1, [CacheFind ''c1''])"
    by simp
  from FetchAnalysis_cache_aside
         [where s = mem_ports and i = "''a1''" and w = world1
            and a = "stored ''a1'' ''completed''" and e = "ErrorString ''key not found''"
            and ?w1.0 = world1 and ?w2.0 = world1
            and ?w3.0 = "world1\<lparr>cache_entries :=
              [stored ''a1'' ''completed'', stored ''c1'' ''failed'',
               stored ''c2'' ''archived'']\<rparr>"]
       mem_cache_miss_a1 mem_db_a1_world1 mem_set_world1
  have two: "FetchAnalysis mem_ports ''a1'' world1 =
      (Inr (stored ''a1'' ''completed''),
       world1\<lparr>cache_entries :=
         [stored ''a1'' ''completed'', stored ''c1'' ''failed'', stored ''c2'' ''archived'']\<rparr>) \<and>
    FetchAnalysis (traced mem_ports) ''a1'' (world1, []) =
      (Inr (stored ''a1'' ''completed''),
       world1\<lparr>cache_entries :=
         [stored ''a1'' ''completed'', stored ''c1'' ''failed'', stored ''c2'' ''archived'']\<rparr>,
       [CacheFind ''a1'', DurableFind ''a1'', CacheSet (stored ''a1'' ''completed'')])"
    by simp
  from FetchAnalysis_cache_aside
         [where s = mem_ports and i = "''a1''" and w = world0
            and a = "stored ''a1'' ''completed''" and e = ErrCacheUnavailable
            and ?w1.0 = world0 and ?w2.0 = world0 and ?w3.0 = world0
            and cacheErr = ErrCacheUnavailable]
       mem_cache_down [of "''a1''"] mem_db_a1 mem_set_world0 [of "stored ''a1'' ''completed''"]
       mem_log [of ?msg ErrCacheUnavailable world0] logged0
  have three: "FetchAnalysis mem_ports ''a1'' world0 =
      (Inr (stored ''a1'' ''completed''),
       world0\<lparr>logged := [(''failed to save analysis to the cache'', ErrCacheUnavailable)]\<rparr>) \<and>
    calls is_DurableFind (snd (snd (FetchAnalysis (traced mem_ports) ''a1'' (world0, [])))) = 1 \<and>
    calls is_CacheSet (snd (snd (FetchAnalysis (traced mem_ports) ''a1'' (world0, [])))) = 1"
    by simp
  from FetchAnalysis_cache_aside
         [where s = mem_ports and i = "''zz''" and w = world0
            and e = ErrCacheUnavailable and ?w1.0 = world0 and ?w2.0 = world0
            and e' = "ErrorString ''analysis with ID zz not found''"]
       mem_cache_down [of "''zz''"] mem_db_zz
  have four: "FetchAnalysis mem_ports ''zz'' world0 =
      (Inl (Wrapped ''failed to find analysis'' (ErrorString ''analysis with ID zz not found'')),
       world0) \<and>
    FetchAnalysis (traced mem_ports) ''zz'' (world0, []) =
      (Inl (Wrapped ''failed to find analysis'' (ErrorString ''analysis with ID zz not found'')),
       world0, [CacheFind ''zz'', DurableFind ''zz''])"
    by simp
  from one two three four show ?thesis by simp
qed


text \<open>
  C4. StartAnalysis calls the durable store's Save first. If Save fails, its error and the
  world it left are the result, and Save is the only call made: the cache's Set is not
  called. If Save succeeds, the cache's Set is called once with the saved Analysis on the
  world Save left, and StartAnalysis returns that Analysis with a nil error whatever Set
  answers; when Set fails its error is logged and nothing else changes. PostgresRepository's
  Save runs the INSERT on a record with status requested, the url given and no results, and
  returns that record with the id and creation time the database gave; a failed INSERT is
  returned wrapped with "failed to save analysis".
\<close>

theorem StartAnalysis_durable_write_authoritative:
  "(analysisRepo_Save s url options w = (Inl e, w1) \<longrightarrow>
      StartAnalysis s url options w = (Inl e, w1) \<and>
      StartAnalysis (traced s) url options (w, []) = (Inl e, w1, [DurableSave url options])) \<and>
   (analysisRepo_Save s url options w = (Inr a, w1) \<longrightarrow>
      fst (StartAnalysis s url options w) = Inr a \<and>
      (cacheRepo_Set s a w1 = (None, w2) \<longrightarrow>
         StartAnalysis s url options w = (Inr a, w2) \<and>
         StartAnalysis (traced s) url options (w, []) =
           (Inr a, w2, [DurableSave url options, CacheSet a])) \<and>
      (cacheRepo_Set s a w1 = (Some cacheErr, w2) \<longrightarrow>
         StartAnalysis s url options w =
           (Inr a, logger_Error s ''failed to save analysis to the cache'' cacheErr w2) \<and>
         StartAnalysis (traced s) url options (w, []) =
           (Inr a, logger_Error s ''failed to save analysis to the cache'' cacheErr w2,
            [DurableSave url options, CacheSet a,
             LogError ''failed to save analysis to the cache'' cacheErr]))) \<and>
   (GetDB r w = None \<longrightarrow> uuid_New r w = (newID, wa) \<longrightarrow> time_Now r wa = (now, wb) \<longrightarrow>
      (insert_returning r
         \<lparr>ID = newID, URL = url, Status = ''requested'', CreatedAt = now, CompletedAt = None,
          Duration = None, Results = None, Error = None\<rparr> wb = (Inr (storedID, storedAt), wc)
       \<longrightarrow> PostgresRepository_Save r url options w =
             (Inr \<lparr>ID = storedID, URL = url, Status = ''requested'', CreatedAt = storedAt,
                   CompletedAt = None, Duration = None, Results = None, Error = None\<rparr>, wc)) \<and>
      (insert_returning r
         \<lparr>ID = newID, URL = url, Status = ''requested'', CreatedAt = now, CompletedAt = None,
          Duration = None, Results = None, Error = None\<rparr> wb = (Inl insertErr, wc)
       \<longrightarrow> PostgresRepository_Save r url options w =
             (Inl (Wrapped ''failed to save analysis'' insertErr), wc))) \<and>
   (analysisRepo_Save s = PostgresRepository_Save r \<longrightarrow>
      fst (StartAnalysis s url options w) = Inr a' \<longrightarrow>
      Status a' = ''requested'' \<and> URL a' = url \<and> Results a' = None \<and> Error a' = None)"
  by (auto simp: StartAnalysis_def PostgresRepository_Save_def StatusRequested_def Let_def
           split: prod.splits sum.splits option.splits)

lemma mem_storage_world0:
  "GetDB mem_storage w = None"
  "uuid_New mem_storage world0 = (''n1'', world0\<lparr>fresh_ids := [''n2'']\<rparr>)"
  "time_Now mem_storage (world0\<lparr>fresh_ids := [''n2'']\<rparr>) =
     (7, world0\<lparr>fresh_ids := [''n2''], clock := 8\<rparr>)"
  "insert_returning mem_storage
     \<lparr>ID = ''n1'', URL = ''https://example.com'', Status = ''requested'', CreatedAt = 7,
      CompletedAt = None, Duration = None, Results = None, Error = None\<rparr>
     (world0\<lparr>fresh_ids := [''n2''], clock := 8\<rparr>) =
   (Inr (''n1'', 7),
    world0\<lparr>fresh_ids := [''n2''], clock := 8,
           db_rows := [stored ''a1'' ''completed'',
             \<lparr>ID = ''n1'', URL = ''https://example.com'', Status = ''requested'',
              CreatedAt = 7, CompletedAt = None, Duration = None, Results = None,
              Error = None\<rparr>]\<rparr>)"
  by (simp_all add: mem_storage_def world0_def stored_def)

lemma mem_storage_duplicate:
  "uuid_New mem_storage (world0\<lparr>fresh_ids := [''a1'']\<rparr>) =
     (''a1'', world0\<lparr>fresh_ids := []\<rparr>)"
  "time_Now mem_storage (world0\<lparr>fresh_ids := []\<rparr>) =
     (7, world0\<lparr>fresh_ids := [], clock := 8\<rparr>)"
  "insert_returning mem_storage
     \<lparr>ID = ''a1'', URL = ''https://example.com'', Status = ''requested'', CreatedAt = 7,
      CompletedAt = None, Duration = None, Results = None, Error = None\<rparr>
     (world0\<lparr>fresh_ids := [], clock := 8\<rparr>) =
   (Inl (ErrorString ''duplicate key value violates unique constraint''),
    world0\<lparr>fresh_ids := [], clock := 8\<rparr>)"
  by (simp_all add: mem_storage_def world0_def stored_def)

lemma mem_save_world0:
  "analysisRepo_Save mem_ports ''https://example.com'' defaultOptions world0 =
     (Inr \<lparr>ID = ''n1'', URL = ''https://example.com'', Status = ''requested'',
           CreatedAt = 7, CompletedAt = None, Duration = None, Results = None, Error = None\<rparr>,
      world0\<lparr>fresh_ids := [''n2''], clock := 8,
             db_rows := [stored ''a1'' ''completed'',
               \<lparr>ID = ''n1'', URL = ''https://example.com'', Status = ''requested'',
                CreatedAt = 7, CompletedAt = None, Duration = None, Results = None,
                Error = None\<rparr>]\<rparr>)"
  by (simp add: mem_ports_def mem_storage_def PostgresRepository_Save_def world0_def
        stored_def StatusRequested_def Let_def)

lemma mem_save_world1:
  "analysisRepo_Save mem_ports ''https://example.com'' defaultOptions world1 =
     (Inr \<lparr>ID = ''n1'', URL = ''https://example.com'', Status = ''requested'',
           CreatedAt = 7, CompletedAt = None, Duration = None, Results = None, Error = None\<rparr>,
      world1\<lparr>fresh_ids := [''n2''], clock := 8,
             db_rows := [stored ''a1'' ''completed'',
               \<lparr>ID = ''n1'', URL = ''https://example.com'', Status = ''requested'',
                CreatedAt = 7, CompletedAt = None, Duration = None, Results = None,
                Error = None\<rparr>]\<rparr>)"
  by (simp add: mem_ports_def mem_storage_def PostgresRepository_Save_def world1_def
        stored_def StatusRequested_def Let_def)

lemma mem_save_duplicate:
  "analysisRepo_Save mem_ports ''https://example.com'' defaultOptions
     (world0\<lparr>fresh_ids := [''a1'']\<rparr>) =
   (Inl (Wrapped ''failed to save analysis''
          (ErrorString ''duplicate key value violates unique constraint'')),
    world0\<lparr>fresh_ids := [], clock := 8\<rparr>)"
  by (simp add: mem_ports_def mem_storage_def PostgresRepository_Save_def world0_def
        stored_def Let_def)

lemma mem_set_down:
  "\<not> cache_up w \<Longrightarrow> cacheRepo_Set mem_ports a w = (Some ErrCacheUnavailable, w)"
  by (simp add: mem_ports_def)

lemma mem_set_up:
  "cache_up w \<Longrightarrow>
   cacheRepo_Set mem_ports a w =
     (None, w\<lparr>cache_entries := a # filter (\<lambda>b. ID b \<noteq> ID a) (cache_entries w)\<rparr>)"
  by (simp add: mem_ports_def)

theorem StartAnalysis_durable_write_authoritative_witness:
  "StartAnalysis mem_ports ''https://example.com'' defaultOptions world0 =
     (Inr \<lparr>ID = ''n1'', URL = ''https://example.com'', Status = ''requested'',
           CreatedAt = 7, CompletedAt = None, Duration = None, Results = None,
           Error = None\<rparr>,
      world0\<lparr>fresh_ids := [''n2''], clock := 8,
             db_rows := [stored ''a1'' ''completed'',
               \<lparr>ID = ''n1'', URL = ''https://example.com'', Status = ''requested'',
                CreatedAt = 7, CompletedAt = None, Duration = None, Results = None,
                Error = None\<rparr>],
             logged := [(''failed to save analysis to the cache'', ErrCacheUnavailable)]\<rparr>) \<and>
   StartAnalysis mem_ports ''https://example.com'' defaultOptions world1 =
     (Inr \<lparr>ID = ''n1'', URL = ''https://example.com'', Status = ''requested'',
           CreatedAt = 7, CompletedAt = None, Duration = None, Results = None,
           Error = None\<rparr>,
      world1\<lparr>fresh_ids := [''n2''], clock := 8,
             db_rows := [stored ''a1'' ''completed'',
               \<lparr>ID = ''n1'', URL = ''https://example.com'', Status = ''requested'',
                CreatedAt = 7, CompletedAt = None, Duration = None, Results = None,
                Error = None\<rparr>],
             cache_entries :=
               [\<lparr>ID = ''n1'', URL = ''https://example.com'', Status = ''requested'',
                 CreatedAt = 7, CompletedAt = None, Duration = None, Results = None,
                 Error = None\<rparr>,
                stored ''c1'' ''failed'', stored ''c2'' ''archived'']\<rparr>) \<and>
   snd (snd (StartAnalysis (traced mem_ports) ''https://example.com'' defaultOptions
               (world1, []))) =
     [DurableSave ''https://example.com'' defaultOptions,
      CacheSet \<lparr>ID = ''n1'', URL = ''https://example.com'', Status = ''requested'',
                CreatedAt = 7, CompletedAt = None, Duration = None, Results = None,
                Error = None\<rparr>] \<and>
   StartAnalysis mem_ports ''https://example.com'' defaultOptions
     (world0\<lparr>fresh_ids := [''a1'']\<rparr>) =
     (Inl (Wrapped ''failed to save analysis''
            (ErrorString ''duplicate key value violates unique constraint'')),
      world0\<lparr>fresh_ids := [], clock := 8\<rparr>) \<and>
   snd (snd (StartAnalysis (traced mem_ports) ''https://example.com'' defaultOptions
               (world0\<lparr>fresh_ids := [''a1'']\<rparr>, []))) =
     [DurableSave ''https://example.com'' defaultOptions]"
proof -
  let ?u = "''https://example.com''"
  let ?a = "\<lparr>ID = ''n1'', URL = ''https://example.com'', Status = ''requested'',
            CreatedAt = 7, CompletedAt = None, Duration = None, Results = None,
            Error = None\<rparr>"
  let ?w1 = "world0\<lparr>fresh_ids := [''n2''], clock := 8,
             db_rows := [stored ''a1'' ''completed'', ?a]\<rparr>"
  let ?v1 = "world1\<lparr>fresh_ids := [''n2''], clock := 8,
             db_rows := [stored ''a1'' ''completed'', ?a]\<rparr>"
  let ?v2 = "?v1\<lparr>cache_entries := [?a, stored ''c1'' ''failed'', stored ''c2'' ''archived'']\<rparr>"
  have down: "\<not> cache_up ?w1" by (simp add: world0_def)
  have up: "cache_up ?v1" by (simp add: world1_def)
  have set_fails: "cacheRepo_Set mem_ports ?a ?w1 = (Some ErrCacheUnavailable, ?w1)"
    by (rule mem_set_down [OF down])
  have set_ok: "cacheRepo_Set mem_ports ?a ?v1 = (None, ?v2)"
    by (simp add: mem_set_up [OF up]) (simp add: world1_def stored_def)
  have pg: "analysisRepo_Save mem_ports = PostgresRepository_Save mem_storage"
    by (simp add: mem_ports_def)
  have lg: "logger_Error mem_ports ''failed to save analysis to the cache'' ErrCacheUnavailable ?w1 =
      ?w1\<lparr>logged := [(''failed to save analysis to the cache'', ErrCacheUnavailable)]\<rparr>"
    by (simp add: mem_log world0_def)
  from StartAnalysis_durable_write_authoritative
         [where s = mem_ports and url = ?u and options = defaultOptions
            and w = world0 and a = ?a and ?w1.0 = ?w1 and cacheErr = ErrCacheUnavailable
            and ?w2.0 = ?w1 and r = mem_storage and a' = ?a and newID = "''n1''"
            and wa = "world0\<lparr>fresh_ids := [''n2'']\<rparr>" and now = 7
            and wb = "world0\<lparr>fresh_ids := [''n2''], clock := 8\<rparr>"
            and storedID = "''n1''" and storedAt = 7 and wc = ?w1]
       mem_save_world0 set_fails pg lg mem_storage_world0
  have first: "StartAnalysis mem_ports ?u defaultOptions world0 =
     (Inr ?a, ?w1\<lparr>logged := [(''failed to save analysis to the cache'', ErrCacheUnavailable)]\<rparr>)"
    by simp
  from StartAnalysis_durable_write_authoritative
         [where s = mem_ports and url = ?u and options = defaultOptions
            and w = world1 and a = ?a and ?w1.0 = ?v1 and ?w2.0 = ?v2]
       mem_save_world1 set_ok
  have second: "StartAnalysis mem_ports ?u defaultOptions world1 = (Inr ?a, ?v2) \<and>
     snd (snd (StartAnalysis (traced mem_ports) ?u defaultOptions (world1, []))) =
       [DurableSave ?u defaultOptions, CacheSet ?a]"
    by simp
  from StartAnalysis_durable_write_authoritative
         [where s = mem_ports and url = ?u and options = defaultOptions
            and w = "world0\<lparr>fresh_ids := [''a1'']\<rparr>"
            and e = "Wrapped ''failed to save analysis''
                (ErrorString ''duplicate key value violates unique constraint'')"
            and ?w1.0 = "world0\<lparr>fresh_ids := [], clock := 8\<rparr>"
            and r = mem_storage and newID = "''a1''"
            and wa = "world0\<lparr>fresh_ids := []\<rparr>" and now = 7
            and wb = "world0\<lparr>fresh_ids := [], clock := 8\<rparr>"
            and wc = "world0\<lparr>fresh_ids := [], clock := 8\<rparr>"
            and insertErr = "ErrorString ''duplicate key value violates unique constraint''"]
       mem_save_duplicate mem_storage_duplicate
  have third: "StartAnalysis mem_ports ?u defaultOptions (world0\<lparr>fresh_ids := [''a1'']\<rparr>) =
     (Inl (Wrapped ''failed to save analysis''
            (ErrorString ''duplicate key value violates unique constraint'')),
      world0\<lparr>fresh_ids := [], clock := 8\<rparr>) \<and>
     snd (snd (StartAnalysis (traced mem_ports) ?u defaultOptions
               (world0\<lparr>fresh_ids := [''a1'']\<rparr>, []))) =
       [DurableSave ?u defaultOptions]"
    by simp
  from first second third show ?thesis by simp
qed


text \<open>
  C10. FetchAnalysisEvents always returns a nil error, and leaves the world as the lookup of
  the analysis left it. When the lookup fails (in particular when both the cache and the
  durable store fail to find the id), nothing is sent: the receiver's first receive finds
  the channel closed. When the lookup succeeds with a status that is one of requested,
  in_progress, completed and failed, exactly one event is sent, carrying the analysis and
  its id, with type analysis_started, analysis_progress, analysis_completed and
  analysis_failed respectively; the receiver gets it first and then finds the channel
  closed. When the lookup succeeds with any other status, nothing is sent.
\<close>

theorem FetchAnalysisEvents_single_snapshot:
  "snd (fst (FetchAnalysisEvents s i w)) = None \<and>
   snd (FetchAnalysisEvents s i w) = snd (FetchAnalysis s i w) \<and>
   (fst (FetchAnalysis s i w) = Inl e \<longrightarrow>
      fst (fst (FetchAnalysisEvents s i w)) = [] \<and>
      recv (fst (fst (FetchAnalysisEvents s i w))) 0 = None) \<and>
   (cacheRepo_Find s i w = (Inl e1, w1) \<longrightarrow> analysisRepo_Find s i w1 = (Inl e2, w2) \<longrightarrow>
      FetchAnalysisEvents s i w = (([], None), w2)) \<and>
   (fst (FetchAnalysis s i w) = Inr a \<longrightarrow>
      (Status a = ''requested'' \<longrightarrow>
         fst (fst (FetchAnalysisEvents s i w)) =
           [\<lparr>Type = ''analysis_started'', Data = a, EventID = ID a\<rparr>]) \<and>
      (Status a = ''in_progress'' \<longrightarrow>
         fst (fst (FetchAnalysisEvents s i w)) =
           [\<lparr>Type = ''analysis_progress'', Data = a, EventID = ID a\<rparr>]) \<and>
      (Status a = ''completed'' \<longrightarrow>
         fst (fst (FetchAnalysisEvents s i w)) =
           [\<lparr>Type = ''analysis_completed'', Data = a, EventID = ID a\<rparr>]) \<and>
      (Status a = ''failed'' \<longrightarrow>
         fst (fst (FetchAnalysisEvents s i w)) =
           [\<lparr>Type = ''analysis_failed'', Data = a, EventID = ID a\<rparr>]) \<and>
      (Status a \<in> {''requested'', ''in_progress'', ''completed'', ''failed''} \<longrightarrow>
         length (fst (fst (FetchAnalysisEvents s i w))) = 1 \<and>
         recv (fst (fst (FetchAnalysisEvents s i w))) 0 =
           Some (hd (fst (fst (FetchAnalysisEvents s i w)))) \<and>
         recv (fst (fst (FetchAnalysisEvents s i w))) 1 = None) \<and>
      (Status a \<notin> {''requested'', ''in_progress'', ''completed'', ''failed''} \<longrightarrow>
         fst (fst (FetchAnalysisEvents s i w)) = [] \<and>
         recv (fst (fst (FetchAnalysisEvents s i w))) 0 = None))"
proof -
  have always: "snd (fst (FetchAnalysisEvents s i w)) = None"
    "snd (FetchAnalysisEvents s i w) = snd (FetchAnalysis s i w)"
    by (simp_all add: FetchAnalysisEvents_def split: prod.splits sum.splits)
  have failed: "fst (fst (FetchAnalysisEvents s i w)) = [] \<and>
      recv (fst (fst (FetchAnalysisEvents s i w))) 0 = None"
    if "fst (FetchAnalysis s i w) = Inl e" for e
    using that
    by (auto simp: FetchAnalysisEvents_def recv_def split: prod.splits sum.splits)
  have both: "FetchAnalysisEvents s i w = (([], None), w2)"
    if "cacheRepo_Find s i w = (Inl e1, w1)" "analysisRepo_Find s i w1 = (Inl e2, w2)"
    using that by (simp add: FetchAnalysisEvents_def FetchAnalysis_def)
  have found: "fst (fst (FetchAnalysisEvents s i w)) =
      (if Status a = ''requested''
       then [\<lparr>Type = ''analysis_started'', Data = a, EventID = ID a\<rparr>]
       else if Status a = ''in_progress''
       then [\<lparr>Type = ''analysis_progress'', Data = a, EventID = ID a\<rparr>]
       else if Status a = ''completed''
       then [\<lparr>Type = ''analysis_completed'', Data = a, EventID = ID a\<rparr>]
       else if Status a = ''failed''
       then [\<lparr>Type = ''analysis_failed'', Data = a, EventID = ID a\<rparr>]
       else [])"
    if "fst (FetchAnalysis s i w) = Inr a"
    using that
    by (auto simp: FetchAnalysisEvents_def StatusRequested_def StatusInProgress_def
          StatusCompleted_def StatusFailed_def EventTypeStarted_def EventTypeProgress_def
          EventTypeCompleted_def EventTypeFailed_def
        split: prod.splits sum.splits)
  have cases: "(Status a = ''requested'' \<longrightarrow>
         fst (fst (FetchAnalysisEvents s i w)) =
           [\<lparr>Type = ''analysis_started'', Data = a, EventID = ID a\<rparr>]) \<and>
      (Status a = ''in_progress'' \<longrightarrow>
         fst (fst (FetchAnalysisEvents s i w)) =
           [\<lparr>Type = ''analysis_progress'', Data = a, EventID = ID a\<rparr>]) \<and>
      (Status a = ''completed'' \<longrightarrow>
         fst (fst (FetchAnalysisEvents s i w)) =
           [\<lparr>Type = ''analysis_completed'', Data = a, EventID = ID a\<rparr>]) \<and>
      (Status a = ''failed'' \<longrightarrow>
         fst (fst (FetchAnalysisEvents s i w)) =
           [\<lparr>Type = ''analysis_failed'', Data = a, EventID = ID a\<rparr>]) \<and>
      (Status a \<in> {''requested'', ''in_progress'', ''completed'', ''failed''} \<longrightarrow>
         length (fst (fst (FetchAnalysisEvents s i w))) = 1 \<and>
         recv (fst (fst (FetchAnalysisEvents s i w))) 0 =
           Some (hd (fst (fst (FetchAnalysisEvents s i w)))) \<and>
         recv (fst (fst (FetchAnalysisEvents s i w))) 1 = None) \<and>
      (Status a \<notin> {''requested'', ''in_progress'', ''completed'', ''failed''} \<longrightarrow>
         fst (fst (FetchAnalysisEvents s i w)) = [] \<and>
         recv (fst (fst (FetchAnalysisEvents s i w))) 0 = None)"
    if "fst (FetchAnalysis s i w) = Inr a"
    by (simp add: found [OF that] recv_def)
  from always failed both cases show ?thesis by blast
qed

lemma FetchAnalysis_zz:
  "FetchAnalysis mem_ports ''zz'' world0 =
     (Inl (Wrapped ''failed to find analysis'' (ErrorString ''analysis with ID zz not found'')),
      world0)"
  by (simp add: FetchAnalysis_def mem_cache_down mem_db_zz)

lemma FetchAnalysis_c1:
  "FetchAnalysis mem_ports ''c1'' world1 = (Inr (stored ''c1'' ''failed''), world1)"
  by (simp add: FetchAnalysis_def mem_cache_c1)

lemma FetchAnalysis_c2:
  "FetchAnalysis mem_ports ''c2'' world1 = (Inr (stored ''c2'' ''archived''), world1)"
  by (simp add: FetchAnalysis_def mem_cache_c2)

theorem FetchAnalysisEvents_single_snapshot_witness:
  "FetchAnalysisEvents mem_ports ''zz'' world0 = (([], None), world0) \<and>
   recv (fst (fst (FetchAnalysisEvents mem_ports ''zz'' world0))) 0 = None \<and>
   FetchAnalysisEvents mem_ports ''c1'' world1 =
     (([\<lparr>Type = ''analysis_failed'', Data = stored ''c1'' ''failed'', EventID = ''c1''\<rparr>], None),
      world1) \<and>
   recv (fst (fst (FetchAnalysisEvents mem_ports ''c1'' world1))) 0 =
     Some \<lparr>Type = ''analysis_failed'', Data = stored ''c1'' ''failed'', EventID = ''c1''\<rparr> \<and>
   recv (fst (fst (FetchAnalysisEvents mem_ports ''c1'' world1))) 1 = None \<and>
   FetchAnalysisEvents mem_ports ''c2'' world1 = (([], None), world1)"
proof -
  have st: "Status (stored ''c1'' ''failed'') = ''failed''" "ID (stored ''c1'' ''failed'') = ''c1''"
    "Status (stored ''c2'' ''archived'') = ''archived''"
    by (simp_all add: stored_def)
  have eq: "c = ((fst (fst c), snd (fst c)), snd c)"
    for c :: "(event_channel \<times> error option) \<times> world"
    by simp
  from FetchAnalysisEvents_single_snapshot
         [where s = mem_ports and i = "''zz''" and w = world0 and ?w1.0 = world0
            and ?w2.0 = world0 and ?e1.0 = ErrCacheUnavailable
            and ?e2.0 = "ErrorString ''analysis with ID zz not found''"
            and e = "Wrapped ''failed to find analysis''
                       (ErrorString ''analysis with ID zz not found'')"]
       FetchAnalysis_zz mem_cache_down [of "''zz''"] mem_db_zz
  have one: "FetchAnalysisEvents mem_ports ''zz'' world0 = (([], None), world0) \<and>
     recv (fst (fst (FetchAnalysisEvents mem_ports ''zz'' world0))) 0 = None"
    by (simp add: recv_def)
  from FetchAnalysisEvents_single_snapshot
         [where s = mem_ports and i = "''c1''" and w = world1
            and a = "stored ''c1'' ''failed''"]
       FetchAnalysis_c1 st
  have two: "FetchAnalysisEvents mem_ports ''c1'' world1 =
     (([\<lparr>Type = ''analysis_failed'', Data = stored ''c1'' ''failed'', EventID = ''c1''\<rparr>], None),
      world1) \<and>
     recv (fst (fst (FetchAnalysisEvents mem_ports ''c1'' world1))) 0 =
       Some \<lparr>Type = ''analysis_failed'', Data = stored ''c1'' ''failed'', EventID = ''c1''\<rparr> \<and>
     recv (fst (fst (FetchAnalysisEvents mem_ports ''c1'' world1))) 1 = None"
    by (subst eq) (simp add: recv_def)
  from FetchAnalysisEvents_single_snapshot
         [where s = mem_ports and i = "''c2''" and w = world1
            and a = "stored ''c2'' ''archived''"]
       FetchAnalysis_c2 st
  have three: "FetchAnalysisEvents mem_ports ''c2'' world1 = (([], None), world1)"
    by (subst eq) (simp add: recv_def)
  from one two three show ?thesis by blast
qed

text \<open>
  A record found with a status that is none of the four constants: the lookup succeeds and
  no event is sent before the channel is closed.
\<close>

theorem FetchAnalysisEvents_unknown_status_sends_nothing:
  "fst (FetchAnalysis mem_ports ''c2'' world1) = Inr (stored ''c2'' ''archived'') \<and>
   fst (FetchAnalysisEvents mem_ports ''c2'' world1) = ([], None) \<and>
   recv (fst (fst (FetchAnalysisEvents mem_ports ''c2'' world1))) 0 = None"
  by (simp add: FetchAnalysisEvents_def FetchAnalysis_c2 stored_def recv_def
        StatusRequested_def StatusInProgress_def StatusCompleted_def StatusFailed_def)

subsection \<open>Link checker\<close>

lemma Execute_rejected:
  "beforeRequest cb w = (Some e, w1) \<Longrightarrow> Execute cb req w = (Inl e, w1)"
  by (simp add: Execute_def)

lemma Execute_admitted:
  "beforeRequest cb w = (None, w1) \<Longrightarrow>
   fst (Execute cb req w) = fst (req w1)"
  by (simp add: Execute_def split: prod.splits sum.splits)

lemma checkSingleLink_rejected:
  "beforeRequest cb w = (Some e, w1) \<Longrightarrow>
   checkSingleLink cb c link w =
     (Some (if e = ErrOpenState
            then \<lparr>InaccessibleLink.URL = Link.URL link, InaccessibleLink.StatusCode = 503,
                  InaccessibleLink.Error =
                    ''Service temporarily unavailable (circuit breaker open)''\<rparr>
            else \<lparr>InaccessibleLink.URL = Link.URL link, InaccessibleLink.StatusCode = 0,
                  InaccessibleLink.Error = Error_string e\<rparr>), w1)"
  by (simp add: checkSingleLink_def Execute_def)

lemma checkSingleLink_head:
  "beforeRequest cb w = (None, w1) \<Longrightarrow> Head c (Link.URL link) w1 = (Inr resp, w2) \<Longrightarrow>
   checkSingleLink cb c link w =
     (if resp_StatusCode resp \<ge> 400
      then Some \<lparr>InaccessibleLink.URL = Link.URL link,
                 InaccessibleLink.StatusCode = resp_StatusCode resp,
                 InaccessibleLink.Error = resp_Status resp\<rparr>
      else None, afterRequest cb True w2)"
  by (simp add: checkSingleLink_def Execute_def performLinkCheck_def Let_def)

lemma checkSingleLink_get:
  "beforeRequest cb w = (None, w1) \<Longrightarrow> Head c (Link.URL link) w1 = (Inl herr, w2) \<Longrightarrow>
   Get c (Link.URL link) w2 = (Inr resp, w3) \<Longrightarrow>
   checkSingleLink cb c link w =
     (if resp_StatusCode resp \<ge> 400
      then Some \<lparr>InaccessibleLink.URL = Link.URL link,
                 InaccessibleLink.StatusCode = resp_StatusCode resp,
                 InaccessibleLink.Error = resp_Status resp\<rparr>
      else None, afterRequest cb True w3)"
  by (simp add: checkSingleLink_def Execute_def performLinkCheck_def Let_def)

lemma checkSingleLink_fail:
  "beforeRequest cb w = (None, w1) \<Longrightarrow> Head c (Link.URL link) w1 = (Inl herr, w2) \<Longrightarrow>
   Get c (Link.URL link) w2 = (Inl gerr, w3) \<Longrightarrow>
   checkSingleLink cb c link w =
     (Some \<lparr>InaccessibleLink.URL = Link.URL link, InaccessibleLink.StatusCode = 0,
            InaccessibleLink.Error = gerr\<rparr>, afterRequest cb False w3)"
  by (simp add: checkSingleLink_def Execute_def performLinkCheck_def Let_def)

text \<open>
  C5. The probe of one link, with the world it leaves. When the circuit breaker is open, the
  probe yields an entry with status code 503 and the breaker's message, and no request is
  made. When the breaker rejects the call with any other error (too many requests while it
  is half-open), the probe yields an entry with status code 0 and that error's message, and
  no request is made. When the breaker lets the probe run: a response (to HEAD, or to GET
  after HEAD failed) with status at least 400 yields an entry with that status code and the
  response's status line; a response with a status below 400 yields no entry; in both cases
  a success is reported to the breaker. When HEAD and GET both fail, the probe yields an
  entry with status code 0 and the GET error's message, and a failure is reported to the
  breaker. So there is no entry exactly when the breaker lets the probe run and HEAD, or GET
  after a failed HEAD, is answered with a status below 400.
\<close>

theorem checkSingleLink_inaccessible_exactly:
  "(beforeRequest cb w = (Some ErrOpenState, w1) \<longrightarrow>
      checkSingleLink cb c link w =
        (Some \<lparr>InaccessibleLink.URL = Link.URL link, InaccessibleLink.StatusCode = 503,
               InaccessibleLink.Error =
                 ''Service temporarily unavailable (circuit breaker open)''\<rparr>, w1)) \<and>
   (beforeRequest cb w = (Some e, w1) \<longrightarrow> e \<noteq> ErrOpenState \<longrightarrow>
      checkSingleLink cb c link w =
        (Some \<lparr>InaccessibleLink.URL = Link.URL link, InaccessibleLink.StatusCode = 0,
               InaccessibleLink.Error = Error_string e\<rparr>, w1)) \<and>
   (beforeRequest cb w = (None, w1) \<longrightarrow>
      (Head c (Link.URL link) w1 = (Inr resp, w2) \<longrightarrow>
         checkSingleLink cb c link w =
           (if resp_StatusCode resp \<ge> 400
            then Some \<lparr>InaccessibleLink.URL = Link.URL link,
                       InaccessibleLink.StatusCode = resp_StatusCode resp,
                       InaccessibleLink.Error = resp_Status resp\<rparr>
            else None, afterRequest cb True w2)) \<and>
      (Head c (Link.URL link) w1 = (Inl herr, w2) \<longrightarrow>
         (Get c (Link.URL link) w2 = (Inr resp, w3) \<longrightarrow>
            checkSingleLink cb c link w =
              (if resp_StatusCode resp \<ge> 400
               then Some \<lparr>InaccessibleLink.URL = Link.URL link,
                          InaccessibleLink.StatusCode = resp_StatusCode resp,
                          InaccessibleLink.Error = resp_Status resp\<rparr>
               else None, afterRequest cb True w3)) \<and>
         (Get c (Link.URL link) w2 = (Inl gerr, w3) \<longrightarrow>
            checkSingleLink cb c link w =
              (Some \<lparr>InaccessibleLink.URL = Link.URL link, InaccessibleLink.StatusCode = 0,
                     InaccessibleLink.Error = gerr\<rparr>, afterRequest cb False w3)))) \<and>
   (fst (checkSingleLink cb c link w) = None \<longleftrightarrow>
      (\<exists>v1 v2 r. beforeRequest cb w = (None, v1) \<and>
         (Head c (Link.URL link) v1 = (Inr r, v2) \<or>
          (\<exists>h v. Head c (Link.URL link) v1 = (Inl h, v) \<and>
                 Get c (Link.URL link) v = (Inr r, v2))) \<and>
         resp_StatusCode r < 400))"
proof -
  let ?u = "Link.URL link"
  have iff: "fst (checkSingleLink cb c link w) = None \<longleftrightarrow>
      (\<exists>v1 v2 r. beforeRequest cb w = (None, v1) \<and>
         (Head c ?u v1 = (Inr r, v2) \<or>
          (\<exists>h v. Head c ?u v1 = (Inl h, v) \<and> Get c ?u v = (Inr r, v2))) \<and>
         resp_StatusCode r < 400)"
  proof (cases "beforeRequest cb w")
    case (Pair r0 v1)
    show ?thesis
    proof (cases r0)
      case (Some e)
      with Pair show ?thesis by (simp add: checkSingleLink_rejected)
    next
      case None
      with Pair have adm: "beforeRequest cb w = (None, v1)" by simp
      show ?thesis
      proof (cases "Head c ?u v1")
        case (Pair hr v2)
        note h = this
        show ?thesis
        proof (cases hr)
          case (Inr resp)
          with h adm show ?thesis by (auto simp: checkSingleLink_head)
        next
          case (Inl herr)
          with h have hd: "Head c ?u v1 = (Inl herr, v2)" by simp
          show ?thesis
          proof (cases "Get c ?u v2")
            case (Pair gr v3)
            then show ?thesis
              using adm hd
              by (cases gr) (auto simp: checkSingleLink_get checkSingleLink_fail)
          qed
        qed
      qed
    qed
  qed
  from checkSingleLink_rejected [of cb w _ w1 c link]
       checkSingleLink_head [of cb w w1 c link resp w2]
       checkSingleLink_get [of cb w w1 c link herr w2 resp w3]
       checkSingleLink_fail [of cb w w1 c link herr w2 gerr w3]
       iff
  show ?thesis by auto
qed


lemma net0_admits: "beforeRequest net_breaker net0 = (None, net0)"
  by (simp add: net_breaker_def net0_def)

lemma net0_tripped:
  "beforeRequest net_breaker (net0\<lparr>failures := 5\<rparr>) = (Some ErrOpenState, net0\<lparr>failures := 5\<rparr>)"
  by (simp add: net_breaker_def net0_def)

lemma net0_half_open:
  "beforeRequest net_breaker (net0\<lparr>half_open := True, in_flight := 1\<rparr>) =
     (Some ErrTooManyRequests, net0\<lparr>half_open := True, in_flight := 1\<rparr>)"
  by (simp add: net_breaker_def net0_def)

lemma net0_head_ok:
  "Head net_client ''https://ok.example/'' net0 =
     (Inr (reply ''https://ok.example/'' 200 ''200 OK'' []), net0)"
  by (simp add: net_client_def net0_def answer_def)

lemma net0_head_gone:
  "Head net_client ''https://gone.example/'' net0 =
     (Inr (reply ''https://gone.example/'' 404 ''404 Not Found'' []), net0)"
  by (simp add: net_client_def net0_def answer_def)

lemma net0_head_unknown:
  "Head net_client ''https://unknown.example/'' net0 = (Inl ''no such host'', net0)"
  by (simp add: net_client_def net0_def answer_def)

lemma net0_get_unknown:
  "Get net_client ''https://unknown.example/'' net0 = (Inl ''no such host'', net0)"
  by (simp add: net_client_def net0_def answer_def)

lemma net0_head_nohead:
  "Head net_client ''https://nohead.example/'' net0 = (Inl ''method not allowed'', net0)"
  by (simp add: net_client_def net0_def answer_def)

lemma net0_get_nohead:
  "Get net_client ''https://nohead.example/'' net0 =
     (Inr (reply ''https://nohead.example/'' 500 ''500 Internal Server Error'' []), net0)"
  by (simp add: net_client_def net0_def answer_def)

lemma net0_after:
  "afterRequest net_breaker True net0 = net0"
  "afterRequest net_breaker False net0 = net0\<lparr>failures := 1\<rparr>"
  by (simp_all add: net_breaker_def net0_def)

theorem checkSingleLink_inaccessible_exactly_witness:
  "checkSingleLink net_breaker net_client
     \<lparr>Link.URL = ''https://ok.example/'', Link.Type = LinkTypeExternal\<rparr> net0 = (None, net0) \<and>
   checkSingleLink net_breaker net_client
     \<lparr>Link.URL = ''https://gone.example/'', Link.Type = LinkTypeExternal\<rparr> net0 =
     (Some \<lparr>InaccessibleLink.URL = ''https://gone.example/'',
            InaccessibleLink.StatusCode = 404, InaccessibleLink.Error = ''404 Not Found''\<rparr>,
      net0) \<and>
   checkSingleLink net_breaker net_client
     \<lparr>Link.URL = ''https://nohead.example/'', Link.Type = LinkTypeExternal\<rparr> net0 =
     (Some \<lparr>InaccessibleLink.URL = ''https://nohead.example/'',
            InaccessibleLink.StatusCode = 500,
            InaccessibleLink.Error = ''500 Internal Server Error''\<rparr>,
      net0) \<and>
   checkSingleLink net_breaker net_client
     \<lparr>Link.URL = ''https://unknown.example/'', Link.Type = LinkTypeExternal\<rparr> net0 =
     (Some \<lparr>InaccessibleLink.URL = ''https://unknown.example/'',
            InaccessibleLink.StatusCode = 0, InaccessibleLink.Error = ''no such host''\<rparr>,
      net0\<lparr>failures := 1\<rparr>) \<and>
   checkSingleLink net_breaker net_client
     \<lparr>Link.URL = ''https://ok.example/'', Link.Type = LinkTypeExternal\<rparr>
     (net0\<lparr>failures := 5\<rparr>) =
     (Some \<lparr>InaccessibleLink.URL = ''https://ok.example/'',
            InaccessibleLink.StatusCode = 503,
            InaccessibleLink.Error =
              ''Service temporarily unavailable (circuit breaker open)''\<rparr>,
      net0\<lparr>failures := 5\<rparr>) \<and>
   checkSingleLink net_breaker net_client
     \<lparr>Link.URL = ''https://gone.example/'', Link.Type = LinkTypeExternal\<rparr>
     (net0\<lparr>half_open := True, in_flight := 1\<rparr>) =
     (Some \<lparr>InaccessibleLink.URL = ''https://gone.example/'',
            InaccessibleLink.StatusCode = 0, InaccessibleLink.Error = ''too many requests''\<rparr>,
      net0\<lparr>half_open := True, in_flight := 1\<rparr>)"
proof -
  let ?ok = "\<lparr>Link.URL = ''https://ok.example/'', Link.Type = LinkTypeExternal\<rparr>"
  let ?gone = "\<lparr>Link.URL = ''https://gone.example/'', Link.Type = LinkTypeExternal\<rparr>"
  let ?nohead = "\<lparr>Link.URL = ''https://nohead.example/'', Link.Type = LinkTypeExternal\<rparr>"
  let ?unknown = "\<lparr>Link.URL = ''https://unknown.example/'', Link.Type = LinkTypeExternal\<rparr>"
  from checkSingleLink_inaccessible_exactly
         [where cb = net_breaker and c = net_client and w = net0 and ?w1.0 = net0
            and link = ?ok and ?w2.0 = net0
            and resp = "reply ''https://ok.example/'' 200 ''200 OK'' []"]
       net0_admits net0_head_ok net0_after
  have one: "checkSingleLink net_breaker net_client ?ok net0 = (None, net0)"
    by (simp add: reply_def)
  from checkSingleLink_inaccessible_exactly
         [where cb = net_breaker and c = net_client and w = net0 and ?w1.0 = net0
            and link = ?gone and ?w2.0 = net0
            and resp = "reply ''https://gone.example/'' 404 ''404 Not Found'' []"]
       net0_admits net0_head_gone net0_after
  have two: "checkSingleLink net_breaker net_client ?gone net0 =
     (Some \<lparr>InaccessibleLink.URL = ''https://gone.example/'',
            InaccessibleLink.StatusCode = 404, InaccessibleLink.Error = ''404 Not Found''\<rparr>,
      net0)"
    by (simp add: reply_def)
  from checkSingleLink_inaccessible_exactly
         [where cb = net_breaker and c = net_client and w = net0 and ?w1.0 = net0
            and link = ?nohead and ?w2.0 = net0 and ?w3.0 = net0
            and herr = "''method not allowed''"
            and resp = "reply ''https://nohead.example/'' 500 ''500 Internal Server Error'' []"]
       net0_admits net0_head_nohead net0_get_nohead net0_after
  have three: "checkSingleLink net_breaker net_client ?nohead net0 =
     (Some \<lparr>InaccessibleLink.URL = ''https://nohead.example/'',
            InaccessibleLink.StatusCode = 500,
            InaccessibleLink.Error = ''500 Internal Server Error''\<rparr>,
      net0)"
    by (simp add: reply_def)
  from checkSingleLink_inaccessible_exactly
         [where cb = net_breaker and c = net_client and w = net0 and ?w1.0 = net0
            and link = ?unknown and ?w2.0 = net0 and ?w3.0 = net0
            and herr = "''no such host''" and gerr = "''no such host''"]
       net0_admits net0_head_unknown net0_get_unknown net0_after
  have four: "checkSingleLink net_breaker net_client ?unknown net0 =
     (Some \<lparr>InaccessibleLink.URL = ''https://unknown.example/'',
            InaccessibleLink.StatusCode = 0, InaccessibleLink.Error = ''no such host''\<rparr>,
      net0\<lparr>failures := 1\<rparr>)"
    by simp
  from checkSingleLink_inaccessible_exactly
         [where cb = net_breaker and c = net_client and w = "net0\<lparr>failures := 5\<rparr>"
            and ?w1.0 = "net0\<lparr>failures := 5\<rparr>" and link = ?ok]
       net0_tripped
  have five: "checkSingleLink net_breaker net_client ?ok (net0\<lparr>failures := 5\<rparr>) =
     (Some \<lparr>InaccessibleLink.URL = ''https://ok.example/'',
            InaccessibleLink.StatusCode = 503,
            InaccessibleLink.Error =
              ''Service temporarily unavailable (circuit breaker open)''\<rparr>,
      net0\<lparr>failures := 5\<rparr>)"
    by simp
  from checkSingleLink_inaccessible_exactly
         [where cb = net_breaker and c = net_client
            and w = "net0\<lparr>half_open := True, in_flight := 1\<rparr>"
            and ?w1.0 = "net0\<lparr>half_open := True, in_flight := 1\<rparr>" and link = ?gone
            and e = ErrTooManyRequests]
       net0_half_open
  have six: "checkSingleLink net_breaker net_client ?gone
       (net0\<lparr>half_open := True, in_flight := 1\<rparr>) =
     (Some \<lparr>InaccessibleLink.URL = ''https://gone.example/'',
            InaccessibleLink.StatusCode = 0, InaccessibleLink.Error = ''too many requests''\<rparr>,
      net0\<lparr>half_open := True, in_flight := 1\<rparr>)"
    by simp
  from one two three four five six show ?thesis by blast
qed

text \<open>
  A half-open breaker that already has its one request in flight: the probe of a link that
  answers 200 yields an entry with status code 0, although the breaker is not open, no
  request is made and no response has a status of 400 or more.
\<close>

theorem checkSingleLink_half_open_entry:
  "beforeRequest net_breaker (net0\<lparr>half_open := True, in_flight := 1\<rparr>) =
     (Some ErrTooManyRequests, net0\<lparr>half_open := True, in_flight := 1\<rparr>) \<and>
   ErrTooManyRequests \<noteq> ErrOpenState \<and>
   Head net_client ''https://ok.example/'' (net0\<lparr>half_open := True, in_flight := 1\<rparr>) =
     (Inr (reply ''https://ok.example/'' 200 ''200 OK'' []),
      net0\<lparr>half_open := True, in_flight := 1\<rparr>) \<and>
   checkSingleLink net_breaker net_client
     \<lparr>Link.URL = ''https://ok.example/'', Link.Type = LinkTypeExternal\<rparr>
     (net0\<lparr>half_open := True, in_flight := 1\<rparr>) =
     (Some \<lparr>InaccessibleLink.URL = ''https://ok.example/'',
            InaccessibleLink.StatusCode = 0, InaccessibleLink.Error = ''too many requests''\<rparr>,
      net0\<lparr>half_open := True, in_flight := 1\<rparr>)"
  by (simp add: checkSingleLink_def Execute_def net_breaker_def net_client_def net0_def
        answer_def)

subsection \<open>Page fetcher: responses that are not 2xx\<close>

lemma NewURLNotReachableError_fields:
  "NewURLNotReachableError u st cause =
     DomainError ''URL_NOT_REACHABLE'' (''URL '' @ u @ '' is not reachable'') st cause
       [(''status_code'', DetailInt st), (''url'', DetailString u)]"
  by (simp add: NewURLNotReachableError_def NewDomainError_def)

lemma not_open_NewURLNotReachableError:
  "\<not> is_ErrOpenState (NewURLNotReachableError u st (Some (ErrorString m)))"
  by (simp add: NewURLNotReachableError_fields)

lemma fetchWithRetry_unreachable:
  "Get c u w = (Inr resp, w') \<Longrightarrow> resp_StatusCode resp < 200 \<or> 300 \<le> resp_StatusCode resp \<Longrightarrow>
   fst (fetchWithRetry config c u w) =
     Inl (NewURLNotReachableError u (resp_StatusCode resp)
           (Some (ErrorString (''HTTP '' @ Itoa (resp_StatusCode resp) @ '': '' @
                               resp_Status resp))))"
  by (auto simp: fetchWithRetry_def)

lemma fetchWithRetry_network:
  "Get c u w = (Inl msg, w') \<Longrightarrow>
   fst (fetchWithRetry config c u w) =
     Inl (NewURLNotReachableError u 0 (Some (ErrorString msg)))"
  by (simp add: fetchWithRetry_def)

lemma Fetch_admitted:
  "validateURL parse u = None \<Longrightarrow> beforeRequest cb w = (None, w1) \<Longrightarrow>
   fst (fetchWithRetry config c u w1) = Inl e \<Longrightarrow> \<not> is_ErrOpenState e \<Longrightarrow>
   fst (Fetch parse config cb c u w) = Inl e"
  by (auto simp: Fetch_def Execute_def split: prod.splits sum.splits)

text \<open>
  C7. When the URL is valid and the circuit breaker lets the request run: a response whose
  status code is below 200 or at least 300 makes Fetch return, instead of page content, the
  DomainError with code URL_NOT_REACHABLE whose status code is the response's, also
  recorded under the key status_code of its details; a failure of the transport makes Fetch
  return the same kind of error with status code 0.
\<close>

theorem Fetch_url_not_reachable:
  "validateURL parse u = None \<longrightarrow> beforeRequest cb w = (None, w1) \<longrightarrow>
     (Get c u w1 = (Inr resp, w2) \<longrightarrow>
      (resp_StatusCode resp < 200 \<or> 300 \<le> resp_StatusCode resp) \<longrightarrow>
        (\<exists>e. fst (Fetch parse config cb c u w) = Inl e \<and>
             error_Code e = Some ''URL_NOT_REACHABLE'' \<and>
             error_StatusCode e = Some (resp_StatusCode resp) \<and>
             map_of (error_Details e) ''status_code'' = Some (DetailInt (resp_StatusCode resp)) \<and>
             map_of (error_Details e) ''url'' = Some (DetailString u))) \<and>
     (Get c u w1 = (Inl msg, w2) \<longrightarrow>
        (\<exists>e. fst (Fetch parse config cb c u w) = Inl e \<and>
             error_Code e = Some ''URL_NOT_REACHABLE'' \<and>
             error_StatusCode e = Some 0 \<and>
             map_of (error_Details e) ''status_code'' = Some (DetailInt 0) \<and>
             Error_string e = ''URL '' @ u @ '' is not reachable: '' @ msg))"
proof (intro impI conjI)
  assume v: "validateURL parse u = None" and adm: "beforeRequest cb w = (None, w1)"
  {
    assume g: "Get c u w1 = (Inr resp, w2)"
      and st: "resp_StatusCode resp < 200 \<or> 300 \<le> resp_StatusCode resp"
    let ?e = "NewURLNotReachableError u (resp_StatusCode resp)
           (Some (ErrorString (''HTTP '' @ Itoa (resp_StatusCode resp) @ '': '' @
                               resp_Status resp)))"
    have "fst (Fetch parse config cb c u w) = Inl ?e"
      by (rule Fetch_admitted [OF v adm fetchWithRetry_unreachable [OF g st]
            not_open_NewURLNotReachableError])
    then show "\<exists>e. fst (Fetch parse config cb c u w) = Inl e \<and>
             error_Code e = Some ''URL_NOT_REACHABLE'' \<and>
             error_StatusCode e = Some (resp_StatusCode resp) \<and>
             map_of (error_Details e) ''status_code'' = Some (DetailInt (resp_StatusCode resp)) \<and>
             map_of (error_Details e) ''url'' = Some (DetailString u)"
      by (simp add: NewURLNotReachableError_fields)
  }
  {
    assume g: "Get c u w1 = (Inl msg, w2)"
    let ?e = "NewURLNotReachableError u 0 (Some (ErrorString msg))"
    have "fst (Fetch parse config cb c u w) = Inl ?e"
      by (rule Fetch_admitted [OF v adm fetchWithRetry_network [OF g]
            not_open_NewURLNotReachableError])
    then show "\<exists>e. fst (Fetch parse config cb c u w) = Inl e \<and>
             error_Code e = Some ''URL_NOT_REACHABLE'' \<and>
             error_StatusCode e = Some 0 \<and>
             map_of (error_Details e) ''status_code'' = Some (DetailInt 0) \<and>
             Error_string e = ''URL '' @ u @ '' is not reachable: '' @ msg"
      by (simp add: NewURLNotReachableError_fields)
  }
qed

lemma validate_gone: "validateURL url_Parse ''https://gone.example/'' = None"
  by code_simp

lemma validate_unknown: "validateURL url_Parse ''https://unknown.example/'' = None"
  by code_simp

lemma net0_get_gone:
  "Get net_client ''https://gone.example/'' net0 =
     (Inr (reply ''https://gone.example/'' 404 ''404 Not Found'' []), net0)"
  by (simp add: net_client_def net0_def answer_def)

theorem Fetch_url_not_reachable_witness:
  "fst (Fetch url_Parse \<lparr>MaxResponseSizeBytes = 10485760\<rparr> net_breaker net_client
          ''https://gone.example/'' net0) =
     Inl (DomainError ''URL_NOT_REACHABLE'' ''URL https://gone.example/ is not reachable'' 404
            (Some (ErrorString ''HTTP 404: 404 Not Found''))
            [(''status_code'', DetailInt 404), (''url'', DetailString ''https://gone.example/'')]) \<and>
   (\<exists>e. fst (Fetch url_Parse \<lparr>MaxResponseSizeBytes = 10485760\<rparr> net_breaker net_client
               ''https://unknown.example/'' net0) = Inl e \<and>
        error_Code e = Some ''URL_NOT_REACHABLE'' \<and> error_StatusCode e = Some 0)"
proof -
  let ?cfg = "\<lparr>MaxResponseSizeBytes = 10485760\<rparr>"
  have run: "fst (Fetch url_Parse ?cfg net_breaker net_client ''https://gone.example/'' net0) =
     Inl (DomainError ''URL_NOT_REACHABLE'' ''URL https://gone.example/ is not reachable'' 404
            (Some (ErrorString ''HTTP 404: 404 Not Found''))
            [(''status_code'', DetailInt 404), (''url'', DetailString ''https://gone.example/'')])"
    by code_simp
  from Fetch_url_not_reachable
         [where parse = url_Parse and u = "''https://unknown.example/''" and cb = net_breaker
            and w = net0 and ?w1.0 = net0 and c = net_client and ?w2.0 = net0
            and msg = "''no such host''" and config = ?cfg]
       validate_unknown net0_admits net0_get_unknown
  have "\<exists>e. fst (Fetch url_Parse ?cfg net_breaker net_client
               ''https://unknown.example/'' net0) = Inl e \<and>
        error_Code e = Some ''URL_NOT_REACHABLE'' \<and> error_StatusCode e = Some 0"
    by auto
  with run show ?thesis by simp
qed

subsection \<open>Links\<close>

lemma ExtractLinks_nothing_selected:
  "Find doc sel_p_href = [] \<Longrightarrow> parse baseURL = Inr b \<Longrightarrow>
   ExtractLinks parse resolve str doc baseURL = Inr []"
  by (simp add: ExtractLinks_def)

lemma anchors_doc_selection: "Find anchors_doc sel_p_href = []"
  by (simp add: anchors_doc_def page_def Find_def sel_p_href_def)

lemma parse_example_com:
  "url_Parse ''https://example.com'' =
     Inr (emptyURL\<lparr>Scheme := ''https'', Host := ''example.com''\<rparr>)"
  by code_simp

text \<open>
  C1, on the code as it is. ExtractLinks selects with \<^verbatim>\<open>doc.Find("p[href]")\<close>:
  paragraph elements that carry an href, not anchors. On the document with the anchors
  \<^verbatim>\<open><a href="https://example.com/p">\<close> twice, \<^verbatim>\<open><a href="#x">\<close> and
  \<^verbatim>\<open><a href="javascript:void(0)">\<close> and the base URL https://example.com, four anchors
  carry an href, the selection is empty and ExtractLinks returns no link at all, where the
  specification (and the repository's test of ExtractLinks) expects one internal link.
\<close>

theorem ExtractLinks_selects_no_anchor:
  "length (Find anchors_doc (\<lambda>n. tag n = ''a'' \<and> ''href'' \<in> fst ` set (attrs n))) = 4 \<and>
   Find anchors_doc sel_p_href = [] \<and>
   ExtractLinks url_Parse resolve str anchors_doc ''https://example.com'' = Inr []"
proof -
  have "length (Find anchors_doc (\<lambda>n. tag n = ''a'' \<and> ''href'' \<in> fst ` set (attrs n))) = 4"
    by (simp add: anchors_doc_def page_def Find_def)
  with anchors_doc_selection
    ExtractLinks_nothing_selected
      [where parse = url_Parse and baseURL = "''https://example.com''" and doc = anchors_doc
         and resolve = resolve and str = str, OF anchors_doc_selection parse_example_com]
  show ?thesis by simp
qed

subsection \<open>Login forms\<close>

lemma password_input_found:
  "n \<in> set (descendants f) \<Longrightarrow> is_Element n \<Longrightarrow> tag n = ''input'' \<Longrightarrow>
   (''type'', ''password'') \<in> set (attrs n) \<Longrightarrow> Find f sel_password_input \<noteq> []"
  by (auto simp: Find_def sel_password_input_def filter_empty_conv)

lemma isLikelyLoginForm_password_input:
  "Find f sel_password_input \<noteq> [] \<Longrightarrow> isLikelyLoginForm fieldNames f"
  by (simp add: isLikelyLoginForm_def Let_def)

lemma ExtractForms_details:
  "parse baseURL = Inr b \<Longrightarrow>
   LoginFormDetails (ExtractForms parse resolve str doc baseURL) =
     map (\<lambda>s. \<lparr>Method = form_method s, Action = form_action parse resolve str b s,
                Fields = form_fields s\<rparr>)
       (filter (\<lambda>s. isLikelyLoginForm (form_fields s) s) (Find doc sel_form))"
  by (simp add: ExtractForms_def Let_def)


lemma pw_form_facts:
  "Element ''input'' [(''type'', ''password''), (''name'', ''pw'')] [] \<in> set (descendants pw_form)"
  "pw_form \<in> set (Find pw_doc sel_form)"
  "form_fields pw_form = [''pw'']"
  "form_action parse resolve str b pw_form = []"
  by (simp_all add: pw_form_def pw_doc_def page_def Find_def sel_form_def form_fields_def
        sel_fields_def AttrOr_def Attr_def form_action_def)

lemma pw_form_method: "form_method pw_form = ''POST''"
  by code_simp


subsection \<open>URL validation\<close>

text \<open>
  C2, on the code as it is. \<^verbatim>\<open>url.Parse\<close> leaves the port in the field Host, and a
  literal IPv6 address in its brackets; isPrivateOrLocalURL compares that whole text with
  the names localhost, 127.0.0.1, ::1 and 0.0.0.0. So validateURL accepts
  http://127.0.0.1:8080/x, http://localhost:8080/, http://0.0.0.0:80/ and http://[::1]/,
  URLs whose host is a loopback address, where the specification has every such URL
  rejected.
\<close>

theorem validateURL_accepts_loopback_with_port:
  "map_sum id Host (url_Parse ''http://127.0.0.1:8080/x'') = Inr ''127.0.0.1:8080'' \<and>
   validateURL url_Parse ''http://127.0.0.1:8080/x'' = None \<and>
   validateURL url_Parse ''http://localhost:8080/'' = None \<and>
   validateURL url_Parse ''http://0.0.0.0:80/'' = None \<and>
   validateURL url_Parse ''http://[::1]/'' = None"
  by code_simp

text \<open>What validateURL does reject, for any parser: the empty URL, a URL that does not
  parse, one whose scheme is not http or https, one with an empty Host, and one whose
  Host text is one of the four names, ends with a dot and one of them, or starts with 10.,
  172.16. to 172.31. or 192.168. (in any case of letters).\<close>

lemma validateURL_rejects:
  "validateURL parse [] \<noteq> None"
  "parse u = Inl err \<Longrightarrow> validateURL parse u \<noteq> None"
  "parse u = Inr p \<Longrightarrow> Scheme p \<noteq> ''http'' \<Longrightarrow> Scheme p \<noteq> ''https'' \<Longrightarrow>
     validateURL parse u \<noteq> None"
  "parse u = Inr p \<Longrightarrow> Host p = [] \<Longrightarrow> validateURL parse u \<noteq> None"
  "parse u = Inr p \<Longrightarrow> isPrivateOrLocalURL (Host p) \<Longrightarrow> validateURL parse u \<noteq> None"
  by (auto simp: validateURL_def)

lemma isPrivateOrLocalURL_names:
  "ToLower h \<in> set privateHosts \<Longrightarrow> isPrivateOrLocalURL h"
  "p \<in> set privatePrefixes \<Longrightarrow> HasPrefix (ToLower h) p \<Longrightarrow> isPrivateOrLocalURL h"
  by (auto simp: isPrivateOrLocalURL_def Let_def list_ex_iff)

lemma validateURL_examples:
  "validateURL url_Parse ''http://127.0.0.1/x'' \<noteq> None"
  "validateURL url_Parse ''http://localhost'' \<noteq> None"
  "validateURL url_Parse ''http://192.168.1.1'' \<noteq> None"
  "validateURL url_Parse ''https://example.com'' = None"
  by code_simp+

subsection \<open>HTML version: the matcher and the meaning of patterns\<close>

lemma lower_char_high [simp]:
  "lower_char (CHR 0xE2) = CHR 0xE2" "lower_char (CHR 0xC5) = CHR 0xC5"
  by (simp_all add: lower_char_def is_upper_def between_def byte_def)

lemma lit_match_iff:
  "lit_match c s = Some rest \<longleftrightarrow> (\<exists>r \<in> lit_forms c. s = r @ rest)"
proof (cases s)
  case Nil
  then show ?thesis by (auto simp: lit_forms_def)
next
  case (Cons x xs)
  show ?thesis
  proof
    assume "lit_match c s = Some rest"
    with Cons show "\<exists>r \<in> lit_forms c. s = r @ rest"
      by (auto simp: lit_forms_def split: if_splits)
         (metis append_take_drop_id append_Cons append_Nil)+
  next
    assume "\<exists>r \<in> lit_forms c. s = r @ rest"
    then obtain r where r: "r \<in> lit_forms c" "s = r @ rest" by blast
    with Cons show "lit_match c s = Some rest"
      by (auto simp: lit_forms_def split: if_splits)
  qed
qed

lemma lit_forms_nonempty: "r \<in> lit_forms c \<Longrightarrow> r \<noteq> []"
  by (auto simp: lit_forms_def split: if_splits)

lemma denotes_LitI: "r \<in> lit_forms c \<Longrightarrow> w \<in> denotes p \<Longrightarrow> r @ w \<in> denotes (Lit c # p)"
  by auto

lemma denotes_Spaces1I:
  "ws \<noteq> [] \<Longrightarrow> list_all is_re_space ws \<Longrightarrow> v \<in> denotes p \<Longrightarrow>
   ws @ v \<in> denotes (Spaces1 # p)"
  by auto

lemma denotes_Spaces0I:
  "list_all is_re_space ws \<Longrightarrow> v \<in> denotes p \<Longrightarrow> ws @ v \<in> denotes (Spaces0 # p)"
  by auto

lemma denotes_Spaces0: "denotes (Spaces0 # p) = denotes p \<union> denotes (Spaces1 # p)"
proof (intro set_eqI iffI)
  fix w assume "w \<in> denotes (Spaces0 # p)"
  then obtain ws v where "w = ws @ v" "list_all is_re_space ws" "v \<in> denotes p" by auto
  then show "w \<in> denotes p \<union> denotes (Spaces1 # p)"
    using denotes_Spaces1I [of ws v p] by (cases ws) simp_all
next
  fix w assume "w \<in> denotes p \<union> denotes (Spaces1 # p)"
  then show "w \<in> denotes (Spaces0 # p)"
  proof
    assume "w \<in> denotes p"
    then show ?thesis using denotes_Spaces0I [of "[]" w p] by simp
  next
    assume "w \<in> denotes (Spaces1 # p)"
    then show ?thesis by auto
  qed
qed

lemma denotes_Spaces1_Cons:
  "x # w \<in> denotes (Spaces1 # p) \<longleftrightarrow> is_re_space x \<and> w \<in> denotes (Spaces0 # p)"
proof
  assume "x # w \<in> denotes (Spaces1 # p)"
  then obtain ws v where *: "x # w = ws @ v" "ws \<noteq> []" "list_all is_re_space ws" "v \<in> denotes p"
    by auto
  then obtain ws' where "ws = x # ws'" by (cases ws) auto
  with * have "is_re_space x" "w = ws' @ v" "list_all is_re_space ws'" by auto
  with *(4) show "is_re_space x \<and> w \<in> denotes (Spaces0 # p)"
    using denotes_Spaces0I [of ws' v p] by simp
next
  assume "is_re_space x \<and> w \<in> denotes (Spaces0 # p)"
  then obtain ws v where "is_re_space x" "w = ws @ v" "list_all is_re_space ws" "v \<in> denotes p"
    by auto
  then show "x # w \<in> denotes (Spaces1 # p)"
    using denotes_Spaces1I [of "x # ws" v p] by simp
qed

lemma denotes_Spaces1_nonempty: "[] \<notin> denotes (Spaces1 # p)"
  by auto

text \<open>The matcher is right: a pattern matches at the start of a text exactly when a text
  it denotes is a prefix.\<close>

lemma match_here_iff: "match_here p s \<longleftrightarrow> (\<exists>w \<in> denotes p. prefix w s)"
proof (induction p s rule: match_here.induct)
  case (1 s)
  then show ?case by simp
next
  case (2 c p s)
  show ?case
  proof
    assume "match_here (Lit c # p) s"
    then obtain rest where m: "lit_match c s = Some rest" and h: "match_here p rest"
      by (auto split: option.splits)
    from m obtain r where r: "r \<in> lit_forms c" "s = r @ rest" by (auto simp: lit_match_iff)
    from 2 [OF m] h obtain w where w: "w \<in> denotes p" "prefix w rest" by auto
    with r have "r @ w \<in> denotes (Lit c # p)" "prefix (r @ w) s"
      using denotes_LitI [of r c w p] by simp_all
    then show "\<exists>w \<in> denotes (Lit c # p). prefix w s" by blast
  next
    assume "\<exists>w \<in> denotes (Lit c # p). prefix w s"
    then obtain r w where r: "r \<in> lit_forms c" and w: "w \<in> denotes p" and p: "prefix (r @ w) s"
      by auto
    from p obtain rest where s: "s = r @ rest" and pr: "prefix w rest"
      by (auto simp: prefix_def)
    from r s have m: "lit_match c s = Some rest" by (auto simp: lit_match_iff)
    from 2 [OF m] w pr have "match_here p rest" by auto
    with m show "match_here (Lit c # p) s" by simp
  qed
next
  case (3 p)
  then show ?case using denotes_Spaces1_nonempty [of p] by auto
next
  case (4 p x xs)
  have "(\<exists>w \<in> denotes (Spaces1 # p). prefix w (x # xs)) \<longleftrightarrow>
        is_re_space x \<and> (\<exists>w \<in> denotes (Spaces0 # p). prefix w xs)"
  proof
    assume "\<exists>w \<in> denotes (Spaces1 # p). prefix w (x # xs)"
    then obtain w where w: "w \<in> denotes (Spaces1 # p)" "prefix w (x # xs)" by blast
    with denotes_Spaces1_nonempty [of p] obtain w' where "w = x # w'" "prefix w' xs"
      by (cases w) auto
    with w show "is_re_space x \<and> (\<exists>w \<in> denotes (Spaces0 # p). prefix w xs)"
      using denotes_Spaces1_Cons by blast
  next
    assume "is_re_space x \<and> (\<exists>w \<in> denotes (Spaces0 # p). prefix w xs)"
    then obtain w where "is_re_space x" "w \<in> denotes (Spaces0 # p)" "prefix w xs" by blast
    then have "x # w \<in> denotes (Spaces1 # p)" "prefix (x # w) (x # xs)"
      using denotes_Spaces1_Cons by auto
    then show "\<exists>w \<in> denotes (Spaces1 # p). prefix w (x # xs)" by blast
  qed
  with 4 show ?case by simp
next
  case (5 p)
  have "(\<exists>w \<in> denotes (Spaces0 # p). prefix w []) \<longleftrightarrow> (\<exists>w \<in> denotes p. prefix w [])"
    using denotes_Spaces1_nonempty [of p] by (auto simp: denotes_Spaces0 simp del: denotes.simps)
  with 5 show ?case by simp
next
  case (6 p x xs)
  have "(\<exists>w \<in> denotes (Spaces1 # p). prefix w (x # xs)) \<longleftrightarrow>
        is_re_space x \<and> (\<exists>w \<in> denotes (Spaces0 # p). prefix w xs)"
  proof
    assume "\<exists>w \<in> denotes (Spaces1 # p). prefix w (x # xs)"
    then obtain w where w: "w \<in> denotes (Spaces1 # p)" "prefix w (x # xs)" by blast
    with denotes_Spaces1_nonempty [of p] obtain w' where "w = x # w'" "prefix w' xs"
      by (cases w) auto
    with w show "is_re_space x \<and> (\<exists>w \<in> denotes (Spaces0 # p). prefix w xs)"
      using denotes_Spaces1_Cons by blast
  next
    assume "is_re_space x \<and> (\<exists>w \<in> denotes (Spaces0 # p). prefix w xs)"
    then obtain w where "is_re_space x" "w \<in> denotes (Spaces0 # p)" "prefix w xs" by blast
    then have "x # w \<in> denotes (Spaces1 # p)" "prefix (x # w) (x # xs)"
      using denotes_Spaces1_Cons by auto
    then show "\<exists>w \<in> denotes (Spaces1 # p). prefix w (x # xs)" by blast
  qed
  moreover have "(\<exists>w \<in> denotes (Spaces0 # p). prefix w (x # xs)) \<longleftrightarrow>
        (\<exists>w \<in> denotes p. prefix w (x # xs)) \<or> (\<exists>w \<in> denotes (Spaces1 # p). prefix w (x # xs))"
    by (auto simp: denotes_Spaces0 simp del: denotes.simps)
  ultimately show ?case using 6 by simp
qed

lemma MatchString_iff: "MatchString p s \<longleftrightarrow> has_match p s"
proof (induction s)
  case Nil
  then show ?case by (auto simp: has_match_def match_here_iff)
next
  case (Cons x xs)
  then show ?case
    by (auto simp: has_match_def match_here_iff sublist_Cons_right simp del: denotes.simps)
qed

subsection \<open>Trimming white space does not change what matches\<close>

lemma leading_space_bytes:
  assumes "leading_space s \<noteq> 0"
  shows "leading_space s \<le> length s \<and> set (take (leading_space s) s) \<subseteq> space_bytes"
proof -
  from assms obtain e where e: "find (HasPrefix s) space_encodings = Some e"
    and n: "leading_space s = length e"
    by (auto simp: leading_space_def split: option.splits)
  from e have "e \<in> set space_encodings" "HasPrefix s e"
    by (auto simp: find_Some_iff)
  then have "take (length e) s = e" "set e \<subseteq> space_bytes"
    by (auto simp: HasPrefix_def space_bytes_def)
  moreover have "length e \<le> length s"
  proof -
    from \<open>take (length e) s = e\<close> have "length (take (length e) s) = length e" by simp
    then show ?thesis by simp
  qed
  ultimately show ?thesis using n by simp
qed

lemma trailing_space_bytes:
  assumes "trailing_space s \<noteq> 0"
  shows "trailing_space s \<le> length s \<and>
         set (drop (length s - trailing_space s) s) \<subseteq> space_bytes"
proof -
  from assms obtain e where e: "find (HasSuffix s) space_encodings = Some e"
    and n: "trailing_space s = length e"
    by (auto simp: trailing_space_def split: option.splits)
  from e have "e \<in> set space_encodings" "HasSuffix s e"
    by (auto simp: find_Some_iff)
  then have "length e \<le> length s" "drop (length s - length e) s = e" "set e \<subseteq> space_bytes"
    by (auto simp: HasSuffix_def space_bytes_def)
  then show ?thesis using n by simp
qed

lemma TrimLeftSpace_split: "\<exists>a. s = a @ TrimLeftSpace s \<and> set a \<subseteq> space_bytes"
proof (induction s rule: TrimLeftSpace.induct)
  case (1 s)
  show ?case
  proof (cases "leading_space s = 0")
    case True
    then have "TrimLeftSpace s = s" by (subst TrimLeftSpace.simps) simp
    then show ?thesis by simp
  next
    case False
    from 1 [OF False] obtain a where
      a: "drop (leading_space s) s = a @ TrimLeftSpace (drop (leading_space s) s)"
         "set a \<subseteq> space_bytes"
      by blast
    from False have t: "TrimLeftSpace s = TrimLeftSpace (drop (leading_space s) s)"
      by (subst TrimLeftSpace.simps) simp
    have "s = take (leading_space s) s @ drop (leading_space s) s" by simp
    with a(1) t have "s = (take (leading_space s) s @ a) @ TrimLeftSpace s"
      by (metis append_assoc)
    moreover from leading_space_bytes [OF False] a(2)
    have "set (take (leading_space s) s @ a) \<subseteq> space_bytes" by simp
    ultimately show ?thesis by blast
  qed
qed

lemma TrimRightSpace_split: "\<exists>b. s = TrimRightSpace s @ b \<and> set b \<subseteq> space_bytes"
proof (induction s rule: TrimRightSpace.induct)
  case (1 s)
  show ?case
  proof (cases "trailing_space s = 0")
    case True
    then have "TrimRightSpace s = s" by (subst TrimRightSpace.simps) simp
    then show ?thesis by simp
  next
    case False
    let ?k = "length s - trailing_space s"
    from 1 [OF False] obtain b where
      b: "take ?k s = TrimRightSpace (take ?k s) @ b" "set b \<subseteq> space_bytes"
      by blast
    from False have t: "TrimRightSpace s = TrimRightSpace (take ?k s)"
      by (subst TrimRightSpace.simps) simp
    have "s = take ?k s @ drop ?k s" by simp
    with b(1) t have "s = TrimRightSpace s @ (b @ drop ?k s)"
      by (metis append_assoc)
    moreover from trailing_space_bytes [OF False] b(2)
    have "set (b @ drop ?k s) \<subseteq> space_bytes" by simp
    ultimately show ?thesis by blast
  qed
qed

lemma TrimSpace_split:
  "\<exists>a b. s = a @ TrimSpace s @ b \<and> set a \<subseteq> space_bytes \<and> set b \<subseteq> space_bytes"
proof -
  obtain a where a: "s = a @ TrimLeftSpace s" "set a \<subseteq> space_bytes"
    using TrimLeftSpace_split by blast
  obtain b where b: "TrimLeftSpace s = TrimRightSpace (TrimLeftSpace s) @ b"
    "set b \<subseteq> space_bytes"
    using TrimRightSpace_split by blast
  from a(1) b(1) have "s = a @ TrimSpace s @ b" by (simp add: TrimSpace_def)
  with a(2) b(2) show ?thesis by blast
qed

lemma sublist_drop_left:
  assumes "sublist w (a @ t)" "w \<noteq> []" "hd w \<notin> set a"
  shows "sublist w t"
proof -
  from assms(1) consider "sublist w a" | "sublist w t"
    | xs1 xs2 where "w = xs1 @ xs2" "suffix xs1 a" "prefix xs2 t"
    by (auto simp: sublist_append)
  then show ?thesis
  proof cases
    case 1
    with assms(2) have "hd w \<in> set a"
      by (metis hd_in_set set_mono_sublist subsetD)
    with assms(3) show ?thesis by simp
  next
    case 2
    then show ?thesis .
  next
    case 3
    show ?thesis
    proof (cases xs1)
      case Nil
      with 3 show ?thesis by (auto intro: prefix_imp_sublist)
    next
      case (Cons y ys)
      with 3 have "hd w = y" "y \<in> set a"
        using set_mono_suffix [of xs1 a] by auto
      with assms(3) show ?thesis by simp
    qed
  qed
qed

lemma sublist_drop_right:
  assumes "sublist w (t @ b)" "w \<noteq> []" "last w \<notin> set b"
  shows "sublist w t"
proof -
  from assms(1) have "sublist (rev w) (rev b @ rev t)"
    by (metis rev_append sublist_rev)
  moreover from assms(2,3) have "rev w \<noteq> []" "hd (rev w) \<notin> set (rev b)"
    by (simp_all add: hd_rev)
  ultimately have "sublist (rev w) (rev t)" by (rule sublist_drop_left)
  then show ?thesis by (simp add: sublist_rev)
qed

lemma denotes_append:
  "denotes (p @ q) = {u @ v |u v. u \<in> denotes p \<and> v \<in> denotes q}"
proof (induction p)
  case Nil
  then show ?case by simp
next
  case (Cons t p)
  show ?case
  proof (cases t)
    case (Lit c)
    with Cons show ?thesis
      by (auto simp del: append_assoc simp add: append_assoc [symmetric]) (metis append_assoc)+
  next
    case Spaces1
    with Cons show ?thesis
      by (auto simp del: append_assoc simp add: append_assoc [symmetric]) (metis append_assoc)+
  next
    case Spaces0
    with Cons show ?thesis
      by (auto simp del: append_assoc simp add: append_assoc [symmetric]) (metis append_assoc)+
  qed
qed

lemma space_bytes_not_letters:
  "x \<in> space_bytes \<Longrightarrow> lower_char x = x \<and> x \<noteq> CHR ''<'' \<and> x \<noteq> CHR ''>'' \<and>
     x \<noteq> CHR 0x22 \<and> x \<noteq> CHR ''n''"
  by (auto simp: space_bytes_def space_encodings_def lower_char_def is_upper_def between_def
        byte_def)

lemma safe_last_literals:
  "lower_char x = lower_char (CHR ''>'') \<Longrightarrow> x \<notin> space_bytes"
  "lower_char x = lower_char (CHR 0x22) \<Longrightarrow> x \<notin> space_bytes"
  "lower_char x = lower_char (CHR ''n'') \<Longrightarrow> x \<notin> space_bytes"
  using space_bytes_not_letters [of x]
  by (auto simp: lower_char_def is_upper_def between_def byte_def)

lemma lower_char_result:
  "is_upper x \<Longrightarrow> is_lower (lower_char x)"
  by (simp add: lower_char_def is_upper_def is_lower_def between_def byte_def)

lemma lower_char_eq_other:
  assumes "\<not> is_lower y" "\<not> is_upper y"
  shows "lower_char x = y \<longleftrightarrow> x = y"
proof
  assume "lower_char x = y"
  with assms(1) lower_char_result [of x] have "\<not> is_upper x" by auto
  with \<open>lower_char x = y\<close> show "x = y" by (simp add: lower_char_def)
next
  assume "x = y"
  with assms(2) show "lower_char x = y" by (simp add: lower_char_def)
qed

lemma lt_not_letter: "\<not> is_lower (CHR ''<'')" "\<not> is_upper (CHR ''<'')"
  by (simp_all add: is_upper_def is_lower_def between_def byte_def)

lemma lower_char_lt: "lower_char x = CHR ''<'' \<longleftrightarrow> x = CHR ''<''"
  by (rule lower_char_eq_other [OF lt_not_letter])

lemma lower_lt: "lower_char (CHR ''<'') = CHR ''<''"
  by (simp add: lower_char_lt)

lemma lit_forms_lt: "lit_forms (CHR ''<'') = {''<''}"
  by (auto simp: lit_forms_def lower_lt lower_char_lt)

lemma doctype_like_word:
  assumes "doctype_like p" "w \<in> denotes p"
  shows "w \<noteq> [] \<and> hd w = CHR ''<'' \<and> last w \<notin> space_bytes"
proof -
  from assms(1) obtain q c where p: "p = Lit CHR ''<'' # q @ [Lit c]"
    and c: "lower_char c \<noteq> CHR ''k''" "lower_char c \<noteq> CHR ''s''"
      "\<forall>x. lower_char x = lower_char c \<longrightarrow> x \<notin> space_bytes"
    by (auto simp: doctype_like_def)
  from assms(2) p obtain w' where w: "w = CHR ''<'' # w'" "w' \<in> denotes (q @ [Lit c])"
    by (auto simp: lit_forms_lt)
  from w(2) obtain u v where uv: "w' = u @ v" "v \<in> denotes [Lit c]"
    by (auto simp: denotes_append simp del: denotes.simps)
  from uv(2) c(1,2) obtain x where x: "v = [x]" "lower_char x = lower_char c"
    by (auto simp: lit_forms_def)
  with c(3) have "x \<notin> space_bytes" by blast
  with w uv x show ?thesis by simp
qed

lemma lt_not_space: "CHR ''<'' \<notin> space_bytes"
  using space_bytes_not_letters [of "CHR ''<''"] by auto

lemma has_match_TrimSpace:
  assumes "doctype_like p"
  shows "has_match p (TrimSpace s) = has_match p s"
proof -
  obtain a b where s: "s = a @ TrimSpace s @ b" and a: "set a \<subseteq> space_bytes"
    and b: "set b \<subseteq> space_bytes"
    using TrimSpace_split by blast
  show ?thesis
  proof
    assume "has_match p (TrimSpace s)"
    then obtain w where w: "w \<in> denotes p" "sublist w (TrimSpace s)"
      by (auto simp: has_match_def)
    then have "sublist w (a @ TrimSpace s @ b)"
      by (meson sublist_append)
    with s w(1) show "has_match p s" by (auto simp: has_match_def)
  next
    assume "has_match p s"
    then obtain w where w: "w \<in> denotes p" "sublist w s" by (auto simp: has_match_def)
    from doctype_like_word [OF assms w(1)] a b lt_not_space
    have ne: "w \<noteq> []" and h: "hd w \<notin> set a" and l: "last w \<notin> set b" by auto
    from w(2) s have "sublist w (a @ (TrimSpace s @ b))" by simp
    then have "sublist w (TrimSpace s @ b)" using ne h by (rule sublist_drop_left)
    then have "sublist w (TrimSpace s)" using ne l by (rule sublist_drop_right)
    with w(1) show "has_match p (TrimSpace s)" by (auto simp: has_match_def)
  qed
qed

lemma doctype_likeI:
  assumes "p = Lit CHR ''<'' # q @ [Lit c]"
    and "c = CHR ''>'' \<or> c = CHR 0x22 \<or> c = CHR ''n''"
  shows "doctype_like p"
proof -
  from assms(2) have "lower_char c \<noteq> CHR ''k''" "lower_char c \<noteq> CHR ''s''"
    by (auto simp: lower_char_def is_upper_def between_def byte_def)
  moreover from assms(2) have "\<forall>x. lower_char x = lower_char c \<longrightarrow> x \<notin> space_bytes"
    using safe_last_literals by blast
  ultimately show ?thesis using assms(1) unfolding doctype_like_def by blast
qed

lemma patterns_doctype_like:
  "doctype_like html5Regex"
  "\<forall>p \<in> set html401Patterns. doctype_like p"
  "\<forall>p \<in> set xhtml10Patterns. doctype_like p"
  "doctype_like xhtml11Pattern"
  "doctype_like xmlDeclPattern"
proof -
  have like: "doctype_like p" if "hd p = Lit CHR ''<''" "2 \<le> length p"
    "last p = Lit CHR ''>'' \<or> last p = Lit CHR 0x22 \<or> last p = Lit CHR ''n''" for p
  proof -
    from that(2) have "p \<noteq> []" "tl p \<noteq> []" by (cases p; auto)+
    then have "p = hd p # butlast (tl p) @ [last (tl p)]" by simp
    moreover from \<open>tl p \<noteq> []\<close> \<open>p \<noteq> []\<close> have "last (tl p) = last p"
      by (simp add: last_tl)
    ultimately have "p = Lit CHR ''<'' # butlast (tl p) @ [last p]" using that(1) by simp
    with that(3) show ?thesis
      by (metis doctype_likeI)
  qed
  show "doctype_like html5Regex"
    by (rule like) (simp_all add: html5Regex_def)
  show "\<forall>p \<in> set html401Patterns. doctype_like p"
    by (auto intro!: like simp: html401Patterns_def public_doctype_def)
  show "\<forall>p \<in> set xhtml10Patterns. doctype_like p"
    by (auto intro!: like simp: xhtml10Patterns_def public_doctype_def)
  show "doctype_like xhtml11Pattern"
    by (rule like) (simp_all add: xhtml11Pattern_def public_doctype_def)
  show "doctype_like xmlDeclPattern"
    by (rule like) (simp_all add: xmlDeclPattern_def)
qed

text \<open>ExtractHTMLVersion in terms of the text as given: the first kind of pattern, in the
  order of the source, that matches somewhere in it.\<close>

lemma ExtractHTMLVersion_cascade:
  "ExtractHTMLVersion h =
     (if has_match html5Regex h then HTML5
      else if \<exists>p \<in> set html401Patterns. has_match p h then HTML401
      else if \<exists>p \<in> set xhtml10Patterns. has_match p h then XHTML10
      else if has_match xhtml11Pattern h then XHTML11
      else if has_match xmlDeclPattern h then XHTML10
      else Unknown)"
proof -
  have "(\<exists>p \<in> set ps. MatchString p (TrimSpace h)) = (\<exists>p \<in> set ps. has_match p h)"
    if "\<forall>p \<in> set ps. doctype_like p" for ps
    using that by (auto simp: MatchString_iff has_match_TrimSpace)
  with patterns_doctype_like show ?thesis
    by (simp add: ExtractHTMLVersion_def Let_def list_ex_iff MatchString_iff has_match_TrimSpace)
qed

subsection \<open>Letter case and white space in the doctype\<close>

lemma lit_forms_single: "lower_char x = lower_char c \<Longrightarrow> [x] \<in> lit_forms c"
  by (simp add: lit_forms_def)

lemma denotes_lits:
  "map lower_char d = map lower_char lit \<Longrightarrow> w \<in> denotes q \<Longrightarrow>
   d @ w \<in> denotes (map Lit lit @ q)"
proof (induction lit arbitrary: d)
  case Nil
  then show ?case by simp
next
  case (Cons c lit)
  from Cons.prems(1) obtain x d' where d: "d = x # d'" "lower_char x = lower_char c"
    "map lower_char d' = map lower_char lit"
    by (cases d) auto
  from Cons.IH [OF d(3) Cons.prems(2)] have "d' @ w \<in> denotes (map Lit lit @ q)" .
  with lit_forms_single [OF d(2)] have "[x] @ (d' @ w) \<in> denotes (Lit c # map Lit lit @ q)"
    by (rule denotes_LitI)
  with d(1) show ?case by simp
qed

lemma denotes_lits_prefix:
  assumes "\<forall>c \<in> set lit. lower_char c \<noteq> CHR ''k'' \<and> lower_char c \<noteq> CHR ''s''"
    and "w \<in> denotes (map Lit lit @ q)"
  shows "\<exists>d w'. w = d @ w' \<and> w' \<in> denotes q \<and> map lower_char d = map lower_char lit"
  using assms
proof (induction lit arbitrary: w)
  case Nil
  then show ?case by simp
next
  case (Cons c lit)
  from Cons.prems obtain x v where v: "w = x # v" "lower_char x = lower_char c"
    "v \<in> denotes (map Lit lit @ q)"
    by (auto simp: lit_forms_def)
  from Cons.IH [OF _ v(3)] Cons.prems(1) obtain d w' where
    "v = d @ w'" "w' \<in> denotes q" "map lower_char d = map lower_char lit"
    by auto
  with v(1,2) have "w = (x # d) @ w' \<and> w' \<in> denotes q \<and>
      map lower_char (x # d) = map lower_char (c # lit)"
    by simp
  then show ?case by blast
qed

lemma lower_literals:
  "map lower_char ''<!DOCTYPE'' = ''<!doctype''"
  "map lower_char ''<!doctype'' = ''<!doctype''"
  "map lower_char ''html'' = ''html''"
  "map lower_char ''<?xml'' = ''<?xml''"
  "map lower_char ''>'' = ''>''"
  by code_simp+

lemma no_k_s:
  "\<forall>c \<in> set ''<!DOCTYPE''. lower_char c \<noteq> CHR ''k'' \<and> lower_char c \<noteq> CHR ''s''"
  "\<forall>c \<in> set ''<?xml''. lower_char c \<noteq> CHR ''k'' \<and> lower_char c \<noteq> CHR ''s''"
  by code_simp+

lemma html5_doctype_denoted:
  assumes "map lower_char d = ''<!doctype''" "ws1 \<noteq> []" "list_all is_re_space ws1"
    "map lower_char h = ''html''" "list_all is_re_space ws2"
  shows "d @ ws1 @ h @ ws2 @ ''>'' \<in> denotes html5Regex"
proof -
  have d: "map lower_char d = map lower_char ''<!DOCTYPE''"
    and h: "map lower_char h = map lower_char ''html''"
    using assms(1,4) by (simp_all only: lower_literals)
  have "[] \<in> denotes []" by simp
  with refl have "''>'' @ [] \<in> denotes (map Lit ''>'' @ [])" by (rule denotes_lits)
  then have gt: "''>'' \<in> denotes (map Lit ''>'')" by simp
  from assms(5) gt have "ws2 @ ''>'' \<in> denotes (Spaces0 # map Lit ''>'')"
    by (rule denotes_Spaces0I)
  with h have "h @ ws2 @ ''>'' \<in> denotes (map Lit ''html'' @ Spaces0 # map Lit ''>'')"
    by (rule denotes_lits)
  with assms(2,3) have "ws1 @ h @ ws2 @ ''>''
      \<in> denotes (Spaces1 # map Lit ''html'' @ Spaces0 # map Lit ''>'')"
    by (rule denotes_Spaces1I)
  with d have "d @ ws1 @ h @ ws2 @ ''>''
      \<in> denotes (map Lit ''<!DOCTYPE'' @ Spaces1 # map Lit ''html'' @ Spaces0 # map Lit ''>'')"
    by (rule denotes_lits)
  then show ?thesis by (simp add: html5Regex_def)
qed

lemma starts_with_doctype:
  assumes "p = map Lit lit @ q"
    and "\<forall>c \<in> set lit. lower_char c \<noteq> CHR ''k'' \<and> lower_char c \<noteq> CHR ''s''"
    and "has_match p h"
  shows "sublist (map lower_char lit) (map lower_char h)"
proof -
  from assms(3) obtain w where w: "w \<in> denotes p" "sublist w h" by (auto simp: has_match_def)
  from denotes_lits_prefix [OF assms(2)] w(1) assms(1) obtain d w' where
    d: "w = d @ w'" "map lower_char d = map lower_char lit"
    by blast
  from w(2) d(1) have "sublist d h"
    by (metis sublist_order.dual_order.trans sublist_append_rightI)
  then have "sublist (map lower_char d) (map lower_char h)" by (rule map_mono_sublist)
  with d(2) show ?thesis by simp
qed

lemma patterns_start:
  "\<exists>q. html5Regex = map Lit ''<!DOCTYPE'' @ q"
  "\<forall>p \<in> set html401Patterns. \<exists>q. p = map Lit ''<!DOCTYPE'' @ q"
  "\<forall>p \<in> set xhtml10Patterns. \<exists>q. p = map Lit ''<!DOCTYPE'' @ q"
  "\<exists>q. xhtml11Pattern = map Lit ''<!DOCTYPE'' @ q"
  "\<exists>q. xmlDeclPattern = map Lit ''<?xml'' @ q"
  by (simp_all add: html5Regex_def html401Patterns_def xhtml10Patterns_def xhtml11Pattern_def
        xmlDeclPattern_def public_doctype_def)

lemma doctype_needed:
  assumes "\<exists>q. p = map Lit ''<!DOCTYPE'' @ q" "has_match p h"
  shows "sublist ''<!doctype'' (map lower_char h)"
proof -
  from assms(1) obtain q where "p = map Lit ''<!DOCTYPE'' @ q" by blast
  from starts_with_doctype [OF this no_k_s(1) assms(2)] show ?thesis
    by (simp only: lower_literals)
qed

lemma no_doctype_no_match:
  assumes "\<not> sublist ''<!doctype'' (map lower_char h)"
  shows "\<not> has_match html5Regex h" "\<forall>p \<in> set html401Patterns. \<not> has_match p h"
    "\<forall>p \<in> set xhtml10Patterns. \<not> has_match p h" "\<not> has_match xhtml11Pattern h"
  using assms patterns_start(1-4) doctype_needed by blast+

lemma no_xml_no_match:
  assumes "\<not> sublist ''<?xml'' (map lower_char h)"
  shows "\<not> has_match xmlDeclPattern h"
proof
  assume m: "has_match xmlDeclPattern h"
  from patterns_start(5) obtain q where "xmlDeclPattern = map Lit ''<?xml'' @ q" by blast
  from starts_with_doctype [OF this no_k_s(2) m] have "sublist ''<?xml'' (map lower_char h)"
    by (simp only: lower_literals)
  with assms show False by simp
qed

subsection \<open>Changing the case of letters\<close>

lemma case_change_fixes:
  assumes "\<forall>x. lower_char (f x) = lower_char x" "\<not> is_lower y" "\<not> is_upper y"
  shows "f x = y \<longleftrightarrow> x = y"
proof
  assume "f x = y"
  with assms(1) have "lower_char x = lower_char y" by metis
  with assms(3) have "lower_char x = y" by (simp add: lower_char_def)
  with assms(2,3) show "x = y" by (simp add: lower_char_eq_other)
next
  assume "x = y"
  with assms(1) have "lower_char (f y) = lower_char y" by simp
  with assms(3) have "lower_char (f y) = y" by (simp add: lower_char_def)
  with assms(2,3) \<open>x = y\<close> show "f x = y" by (simp add: lower_char_eq_other)
qed

lemma not_letters:
  "\<not> is_lower (CHR 0xE2)" "\<not> is_upper (CHR 0xE2)" "\<not> is_lower (CHR 0x84)" "\<not> is_upper (CHR 0x84)"
  "\<not> is_lower (CHR 0xAA)" "\<not> is_upper (CHR 0xAA)" "\<not> is_lower (CHR 0xC5)" "\<not> is_upper (CHR 0xC5)"
  "\<not> is_lower (CHR 0xBF)" "\<not> is_upper (CHR 0xBF)"
  "\<not> is_lower (CHR 0x09)" "\<not> is_upper (CHR 0x09)" "\<not> is_lower (CHR 0x0A)" "\<not> is_upper (CHR 0x0A)"
  "\<not> is_lower (CHR 0x0C)" "\<not> is_upper (CHR 0x0C)" "\<not> is_lower (CHR 0x0D)" "\<not> is_upper (CHR 0x0D)"
  "\<not> is_lower (CHR 0x20)" "\<not> is_upper (CHR 0x20)"
  by (simp_all add: is_upper_def is_lower_def between_def byte_def)

lemma case_change_space:
  "\<forall>x. lower_char (f x) = lower_char x \<Longrightarrow> is_re_space (f x) = is_re_space x"
  by (simp add: is_re_space_def case_change_fixes not_letters)

lemma case_change_lit_match:
  assumes "\<forall>x. lower_char (f x) = lower_char x"
  shows "lit_match c (map f s) = map_option (map f) (lit_match c s)"
proof (cases s)
  case Nil
  then show ?thesis by simp
next
  case (Cons x xs)
  have two: "take 2 (map f xs) = [CHR 0x84, CHR 0xAA] \<longleftrightarrow> take 2 xs = [CHR 0x84, CHR 0xAA]"
    using case_change_fixes [OF assms]
    by (cases xs; cases "tl xs") (auto simp: not_letters)
  have one: "take 1 (map f xs) = [CHR 0xBF] \<longleftrightarrow> take 1 xs = [CHR 0xBF]"
    using case_change_fixes [OF assms]
    by (cases xs) (auto simp: not_letters)
  from assms have "lower_char (f x) = lower_char x" by simp
  with Cons two one case_change_fixes [OF assms, of "CHR 0xE2" x]
    case_change_fixes [OF assms, of "CHR 0xC5" x]
  show ?thesis by (simp add: not_letters drop_map)
qed

lemma case_change_match_here:
  assumes "\<forall>x. lower_char (f x) = lower_char x"
  shows "match_here p (map f s) = match_here p s"
proof (induction p s rule: match_here.induct)
  case (2 c p s)
  then show ?case
    by (cases "lit_match c s") (simp_all add: case_change_lit_match [OF assms])
qed (simp_all add: case_change_space [OF assms])

lemma case_change_MatchString:
  assumes "\<forall>x. lower_char (f x) = lower_char x"
  shows "MatchString p (map f s) = MatchString p s"
proof (induction s)
  case Nil
  then show ?case by simp
next
  case (Cons x xs)
  from case_change_match_here [OF assms, of p "x # xs"] Cons show ?case by simp
qed

lemma case_change_ExtractHTMLVersion:
  assumes "\<forall>x. lower_char (f x) = lower_char x"
  shows "ExtractHTMLVersion (map f h) = ExtractHTMLVersion h"
  by (simp add: ExtractHTMLVersion_cascade
        MatchString_iff [symmetric] case_change_MatchString [OF assms])

subsection \<open>The version of a document\<close>

lemma html5_doctype_first:
  assumes "map lower_char d = ''<!doctype''" "ws1 \<noteq> []" "list_all is_re_space ws1"
    "map lower_char t = ''html''" "list_all is_re_space ws2"
  shows "ExtractHTMLVersion (d @ ws1 @ t @ ws2 @ ''>'' @ rest) = HTML5"
proof -
  have "sublist (d @ ws1 @ t @ ws2 @ ''>'') ((d @ ws1 @ t @ ws2 @ ''>'') @ rest)"
    by (rule sublist_append_rightI)
  then have "sublist (d @ ws1 @ t @ ws2 @ ''>'') (d @ ws1 @ t @ ws2 @ ''>'' @ rest)"
    by simp
  with html5_doctype_denoted [OF assms]
  have "has_match html5Regex (d @ ws1 @ t @ ws2 @ ''>'' @ rest)"
    unfolding has_match_def by (rule bexI [rotated])
  then show ?thesis by (simp add: ExtractHTMLVersion_cascade)
qed

lemma match_here_needs_lt: "match_here (Lit CHR ''<'' # q) (x # xs) \<Longrightarrow> x = CHR ''<''"
  by (auto simp: lower_lt lower_char_lt split: if_splits option.splits)

lemma MatchString_needs_lt: "CHR ''<'' \<notin> set s \<Longrightarrow> \<not> MatchString (Lit CHR ''<'' # q) s"
proof (induction s)
  case Nil
  then show ?case by simp
next
  case (Cons x xs)
  then show ?case using match_here_needs_lt [of q x xs] by auto
qed

lemma MatchString_at_start:
  "CHR ''<'' \<notin> set xs \<Longrightarrow>
   MatchString (Lit CHR ''<'' # q) (x # xs) = match_here (Lit CHR ''<'' # q) (x # xs)"
  using MatchString_needs_lt [of xs q] by simp

lemma xhtml11_doctype_shape:
  "\<exists>xs. xhtml11_doctype = CHR ''<'' # xs \<and> CHR ''<'' \<notin> set xs"
  by (simp add: xhtml11_doctype_def)

lemma patterns_shape:
  "\<exists>q. html5Regex = Lit CHR ''<'' # q"
  "\<forall>p \<in> set html401Patterns. \<exists>q. p = Lit CHR ''<'' # q"
  "\<forall>p \<in> set xhtml10Patterns. \<exists>q. p = Lit CHR ''<'' # q"
  "\<exists>q. xhtml11Pattern = Lit CHR ''<'' # q"
  by (simp_all add: html5Regex_def html401Patterns_def xhtml10Patterns_def xhtml11Pattern_def
        public_doctype_def)

lemma xhtml11_doctype_at_start:
  "\<not> match_here html5Regex xhtml11_doctype"
  "\<forall>p \<in> set html401Patterns. \<not> match_here p xhtml11_doctype"
  "\<forall>p \<in> set xhtml10Patterns. \<not> match_here p xhtml11_doctype"
  "match_here xhtml11Pattern xhtml11_doctype"
  by code_simp+

lemma xhtml11_runs: "ExtractHTMLVersion xhtml11_doctype = XHTML11"
proof -
  obtain xs where xs: "xhtml11_doctype = CHR ''<'' # xs" "CHR ''<'' \<notin> set xs"
    using xhtml11_doctype_shape by blast
  have start: "MatchString p xhtml11_doctype = match_here p xhtml11_doctype"
    if "\<exists>q. p = Lit CHR ''<'' # q" for p
  proof -
    from that obtain q where "p = Lit CHR ''<'' # q" by blast
    with MatchString_at_start [OF xs(2), of q "CHR ''<''"] xs(1) show ?thesis
      by (simp only:)
  qed
  from patterns_shape xhtml11_doctype_at_start start
  have "\<not> MatchString html5Regex xhtml11_doctype"
    "\<forall>p \<in> set html401Patterns. \<not> MatchString p xhtml11_doctype"
    "\<forall>p \<in> set xhtml10Patterns. \<not> MatchString p xhtml11_doctype"
    "MatchString xhtml11Pattern xhtml11_doctype"
    by blast+
  then show ?thesis
    by (simp add: ExtractHTMLVersion_cascade MatchString_iff [symmetric])
qed


lemma lower_upper_char: "lower_char (upper_char x) = lower_char x"
  by (auto simp: lower_char_def upper_char_def is_upper_def is_lower_def between_def byte_def)


end
